theory Spec2Isabelle
  imports Complex_Main
begin

section \<open>JavaScript arrays and numbers, as far as the analyser uses them\<close>

text \<open>
  The analyser (\<^verbatim>\<open>src/index.js\<close>) is a stream node that keeps a rolling buffer of
  decoded samples and a smoothed spectrum. A finite number is a real number. A cell of a
  numeric array is \<open>Some x\<close> for the finite number \<open>x\<close> and \<open>None\<close> where JavaScript has
  none (\<^verbatim>\<open>undefined\<close>, \<^verbatim>\<open>NaN\<close> or an infinity). Sizes and counters are natural
  numbers.
\<close>

type_synonym cell = "real option"

text \<open>
  \<^verbatim>\<open>xs.slice(-n)\<close> for a size \<open>n\<close>: the last \<open>n\<close> elements, or all of them when there
  are fewer. For \<open>n = 0\<close> the argument is \<^verbatim>\<open>-0\<close>, which is the index \<open>0\<close>: the slice
  starts at the front and is the whole array.
\<close>

definition js_slice_neg :: "'a list \<Rightarrow> nat \<Rightarrow> 'a list" where
  "js_slice_neg xs n = (if n = 0 then xs else drop (length xs - n) xs)"

text \<open>\<^verbatim>\<open>xs[i]\<close>: reading outside the array (also at a negative index) gives \<^verbatim>\<open>undefined\<close>.\<close>

definition js_get :: "'a list \<Rightarrow> int \<Rightarrow> 'a option" where
  "js_get xs i = (if 0 \<le> i \<and> i < int (length xs) then Some (xs ! nat i) else None)"

definition js_get_cell :: "cell list \<Rightarrow> int \<Rightarrow> cell" where
  "js_get_cell xs i = (case js_get xs i of None \<Rightarrow> None | Some c \<Rightarrow> c)"

text \<open>
  \<^verbatim>\<open>arr[i] = v\<close> on a destination array handed in by a caller. A plain array grows when
  the index is at or past its length (the gap is filled with holes); that is the behaviour
  modelled, so that a write past the end shows in the length of the result.
\<close>

definition js_set :: "'a option list \<Rightarrow> nat \<Rightarrow> 'a option \<Rightarrow> 'a option list" where
  "js_set arr i v =
     (if i < length arr then arr[i := v] else arr @ replicate (i - length arr) None @ [v])"

text \<open>
  JavaScript numbers are IEEE 754 doubles, and the spectrum is a \<^verbatim>\<open>Float32Array\<close>, whose
  cells hold single precision numbers. A finite number of either kind is a real number;
  an arithmetic operation returns the real result rounded to the nearest number of the
  format, ties to the even significand. \<open>ieee_round p emin\<close> is that rounding for a
  significand of \<open>p\<close> bits and the least exponent \<open>emin\<close> (below \<open>2 ^ emin\<close> the
  numbers are equally spaced).
\<close>

definition round_even :: "real \<Rightarrow> int" where
  "round_even x =
     (let f = \<lfloor>x\<rfloor>; d = x - of_int f
      in if d < 1 / 2 then f else if 1 / 2 < d then f + 1 else if even f then f else f + 1)"

definition ieee_round :: "nat \<Rightarrow> int \<Rightarrow> real \<Rightarrow> real" where
  "ieee_round p emin x =
     (if x = 0 then 0
      else let e = max emin \<lfloor>log 2 \<bar>x\<bar>\<rfloor>;
               u = 2 powr (of_int e - real p + 1)
           in u * of_int (round_even (x / u)))"

text \<open>
  The nearest double, and the result of an operation as a cell: a rounded result of
  magnitude \<open>2 ^ 1024\<close> or more (\<open>2 ^ 128\<close> in single precision) is infinite, which is
  \<open>None\<close> like \<^verbatim>\<open>NaN\<close>.
\<close>

definition dbl :: "real \<Rightarrow> real" where
  "dbl x = ieee_round 53 (- 1022) x"

definition to_double :: "real \<Rightarrow> cell" where
  "to_double x = (if \<bar>dbl x\<bar> < 2 ^ 1024 then Some (dbl x) else None)"

definition to_float32 :: "real \<Rightarrow> cell" where
  "to_float32 x =
     (if \<bar>ieee_round 24 (- 126) x\<bar> < 2 ^ 128 then Some (ieee_round 24 (- 126) x) else None)"

text \<open>
  The operations of the smoothing: \<^verbatim>\<open>a * b\<close>, \<^verbatim>\<open>a + b\<close>, \<^verbatim>\<open>a - b\<close>, the division by
  a size, and the store into a cell of the spectrum. An operand that is no finite number
  gives no finite number, and so does the division by the size \<open>0\<close>.
\<close>

definition js_times :: "cell \<Rightarrow> cell \<Rightarrow> cell" where
  "js_times a b =
     (case a of None \<Rightarrow> None | Some x \<Rightarrow> (case b of None \<Rightarrow> None | Some y \<Rightarrow> to_double (x * y)))"

definition js_plus :: "cell \<Rightarrow> cell \<Rightarrow> cell" where
  "js_plus a b =
     (case a of None \<Rightarrow> None | Some x \<Rightarrow> (case b of None \<Rightarrow> None | Some y \<Rightarrow> to_double (x + y)))"

definition js_minus :: "cell \<Rightarrow> cell \<Rightarrow> cell" where
  "js_minus a b =
     (case a of None \<Rightarrow> None | Some x \<Rightarrow> (case b of None \<Rightarrow> None | Some y \<Rightarrow> to_double (x - y)))"

definition js_over_size :: "cell \<Rightarrow> nat \<Rightarrow> cell" where
  "js_over_size a n =
     (case a of None \<Rightarrow> None | Some x \<Rightarrow> if n = 0 then None else to_double (x / real n))"

definition js_f32 :: "cell \<Rightarrow> cell" where
  "js_f32 a = (case a of None \<Rightarrow> None | Some x \<Rightarrow> to_float32 x)"

text \<open>
  One step of the smoothing, line 130: \<^verbatim>\<open>_fdata[i] = k * old + (1 - k) * new / n\<close>,
  evaluated in doubles and stored in single precision.
\<close>

definition js_smooth :: "real \<Rightarrow> nat \<Rightarrow> cell \<Rightarrow> cell \<Rightarrow> cell" where
  "js_smooth k n old new =
     js_f32 (js_plus (js_times (Some k) old)
               (js_over_size (js_times (js_minus (Some 1) (Some k)) new) n))"

text \<open>
  The numbers of the throttle arithmetic. A counter is \<open>Some c\<close> or \<open>None\<close> for
  \<^verbatim>\<open>NaN\<close>; a quotient of a counter and a size is the nearest double of the real
  quotient, and infinite or \<^verbatim>\<open>NaN\<close> for the divisor \<open>0\<close>.
\<close>

datatype jsnum = NaN | PosInf | Fin real

definition js_add :: "nat option \<Rightarrow> nat \<Rightarrow> nat option" where
  "js_add c n = (case c of None \<Rightarrow> None | Some m \<Rightarrow> Some (m + n))"

definition js_div :: "nat option \<Rightarrow> nat \<Rightarrow> jsnum" where
  "js_div c d =
     (case c of
        None \<Rightarrow> NaN
      | Some m \<Rightarrow>
          if d = 0 then (if m = 0 then NaN else PosInf) else Fin (dbl (real m / real d)))"

definition js_gt :: "jsnum \<Rightarrow> real \<Rightarrow> bool" where
  "js_gt x y = (case x of NaN \<Rightarrow> False | PosInf \<Rightarrow> True | Fin r \<Rightarrow> y < r)"

definition js_mod :: "nat option \<Rightarrow> nat \<Rightarrow> nat option" where
  "js_mod c d = (case c of None \<Rightarrow> None | Some m \<Rightarrow> if d = 0 then None else Some (m mod d))"

section \<open>The analyser\<close>

text \<open>Values of an options object or of a property of the analyser object.\<close>

datatype jsval = JNum real | JBool bool | JStr string

text \<open>
  The analyser object. \<open>props\<close> holds the properties the object shows for its
  configuration: the prototype's defaults overlaid with the options. The fields
  \<open>fftSize\<close> to \<open>sampleRate\<close> are the configuration values the code reads, at their
  types; \<open>data\<close>, \<open>fdata\<close>, \<open>timeoutCount\<close> and \<open>fftCount\<close> are the source's
  \<^verbatim>\<open>_data\<close>, \<^verbatim>\<open>_fdata\<close>, \<^verbatim>\<open>_timeoutCount\<close> and \<^verbatim>\<open>_fftCount\<close>.
\<close>

record analyser =
  props :: "string \<rightharpoonup> jsval"
  fftSize :: nat
  smoothingTimeConstant :: real
  frequencyBinCount :: nat
  throttle :: nat
  bufferSize :: nat
  channel :: nat
  sampleRate :: nat
  data :: "real list"
  fdata :: "cell list"
  timeoutCount :: "nat option"
  fftCount :: nat

text \<open>
  What a capture call does besides changing the analyser: the call to the transform
  library with its two arguments, and the call to the completion callback, either at once
  (\<^verbatim>\<open>cb()\<close>) or on a later turn of the scheduler (\<^verbatim>\<open>setTimeout(cb)\<close>).
  \<open>Thrown\<close> marks a call that ended with an exception, thrown by the decoder or by
  the transform library.
\<close>

datatype effect =
    Fft_call "real list" "real list"
  | Callback
  | SetTimeout_callback
  | Thrown

subsection \<open>Capture\<close>

text \<open>
  The loop of lines 129 to 131: for \<open>i\<close> from \<open>0\<close> below \<open>fftSize\<close>,
  \<^verbatim>\<open>_fdata[i] = k * _fdata[i] + (1 - k) * inputRe.get(i) / fftSize\<close>. The spectrum is a
  typed array: a write outside it is dropped, as \<open>list_update\<close> does.
\<close>

function smoothLoop :: "real \<Rightarrow> nat \<Rightarrow> real list \<Rightarrow> nat \<Rightarrow> cell list \<Rightarrow> cell list" where
  "smoothLoop k n inputRe i fd =
     (if i < n
      then smoothLoop k n inputRe (Suc i)
             (fd[i := js_smooth k n (js_get_cell fd (int i)) (js_get inputRe (int i))])
      else fd)"
  by pat_completeness auto
termination
  by (relation "measure (\<lambda>(k, n, inputRe, i, fd). n - i)") auto

declare smoothLoop.simps [simp del]

text \<open>
  Lines 134 to 140: the throttle. \<^verbatim>\<open>throttle\<close> is truthy when it is not \<open>0\<close>.
\<close>

definition throttle_step :: "analyser \<Rightarrow> analyser \<times> effect list" where
  "throttle_step self =
     (if throttle self \<noteq> 0 \<and>
         js_gt (js_div (timeoutCount self) (sampleRate self)) (dbl (real (throttle self) / 1000))
      then (self\<lparr>timeoutCount :=
                   js_mod (timeoutCount self)
                     (nat \<lfloor>dbl (real (sampleRate self) / real (throttle self))\<rfloor>)\<rparr>,
            [SetTimeout_callback])
      else (self, [Callback]))"

text \<open>
  The two libraries are parameters. The decoder stands for line 106 to 108,
  \<^verbatim>\<open>pcm.getChannelData(chunk, channel, self)\<close> followed by the conversion of each sample
  to a float. The library is handed the chunk and the analyser object itself (as the
  format), and both are objects it can write to: its result is the chunk and the object as
  it leaves them, and the samples, or \<open>None\<close> when it throws.
\<close>

record 'c decoded =
  chunk_left :: 'c
  object_left :: analyser
  samples :: "real list option"

text \<open>
  The analyser after lines 111 to 115 of a capture call: the decoded samples are appended
  and the buffer is cut to its size, and both counters have grown by the number of samples.
\<close>

definition appended :: "analyser \<Rightarrow> real list \<Rightarrow> analyser" where
  "appended self channelData =
     self\<lparr>data := js_slice_neg (data self @ channelData) (bufferSize self),
          timeoutCount := js_add (timeoutCount self) (length channelData),
          fftCount := fftCount self + length channelData\<rparr>"

text \<open>
  Lines 111 to 140 of \<^verbatim>\<open>_capture\<close>, from the decoded samples on. \<open>fft\<close> is the in-place
  forward transform \<^verbatim>\<open>fft(1, re, im)\<close>, which returns the two arrays as it leaves them,
  or \<open>None\<close> when it throws. The result is the analyser as the call leaves it, also when
  the call throws, and the effects of the call in their order.
\<close>

definition capture_samples ::
  "(real list \<Rightarrow> real list \<Rightarrow> (real list \<times> real list) option) \<Rightarrow>
   analyser \<Rightarrow> real list \<Rightarrow> analyser \<times> effect list" where
  "capture_samples fft self channelData =
     (let self1 = self\<lparr>data := js_slice_neg (data self @ channelData) (bufferSize self),
                       timeoutCount := js_add (timeoutCount self) (length channelData),
                       fftCount := fftCount self + length channelData\<rparr>
      in if fftSize self1 \<le> fftCount self1
         then
           (let self2 = self1\<lparr>fftCount := 0\<rparr>;
                input = js_slice_neg (data self2) (fftSize self2);
                inputIm = replicate (fftSize self2) 0
            in case fft input inputIm of
                 None \<Rightarrow> (self2, [Fft_call input inputIm, Thrown])
               | Some (outRe, outIm) \<Rightarrow>
                   (let (self3, evs) =
                          throttle_step
                            (self2\<lparr>fdata := smoothLoop (smoothingTimeConstant self2)
                                               (fftSize self2) outRe 0 (fdata self2)\<rparr>)
                    in (self3, Fft_call input inputIm # evs)))
         else throttle_step self1)"

text \<open>
  \<^verbatim>\<open>_capture(chunk, cb)\<close>: the chunk is decoded for the analyser's channel, and the
  call goes on with the samples, on the analyser as the decoder left it. When the decoder
  throws nothing else happens. The third component of the result is the chunk as the call
  leaves it: line 106 is the only place where the call touches the chunk.
\<close>

definition capture ::
  "('c \<Rightarrow> nat \<Rightarrow> analyser \<Rightarrow> 'c decoded) \<Rightarrow>
   (real list \<Rightarrow> real list \<Rightarrow> (real list \<times> real list) option) \<Rightarrow>
   analyser \<Rightarrow> 'c \<Rightarrow> analyser \<times> effect list \<times> 'c" where
  "capture decodeChannel fft self chunk =
     (let r = decodeChannel chunk (channel self) self
      in case samples r of
           None \<Rightarrow> (object_left r, [Thrown], chunk_left r)
         | Some channelData \<Rightarrow>
             (let (self1, evs) = capture_samples fft (object_left r) channelData
              in (self1, evs, chunk_left r)))"

text \<open>The calls to the transform library among the effects of a call, with their arguments.\<close>

fun fft_calls :: "effect list \<Rightarrow> (real list \<times> real list) list" where
  "fft_calls [] = []"
| "fft_calls (Fft_call re im # es) = (re, im) # fft_calls es"
| "fft_calls (e # es) = fft_calls es"

text \<open>The completion signals among the effects of a call.\<close>

definition completions :: "effect list \<Rightarrow> effect list" where
  "completions evs = filter (\<lambda>e. e = Callback \<or> e = SetTimeout_callback) evs"

text \<open>The samples a call of the decoder gave: none when it threw.\<close>

definition samples_of :: "'c decoded \<Rightarrow> real list" where
  "samples_of r = (case samples r of None \<Rightarrow> [] | Some channelData \<Rightarrow> channelData)"

text \<open>
  A sequence of capture calls, one chunk after the other, with the effects of all of
  them; and the samples that were decoded on the way.
\<close>

fun run ::
  "('c \<Rightarrow> nat \<Rightarrow> analyser \<Rightarrow> 'c decoded) \<Rightarrow>
   (real list \<Rightarrow> real list \<Rightarrow> (real list \<times> real list) option) \<Rightarrow>
   analyser \<Rightarrow> 'c list \<Rightarrow> analyser \<times> effect list" where
  "run decodeChannel fft self [] = (self, [])"
| "run decodeChannel fft self (chunk # chunks) =
     (let (self1, evs1, left) = capture decodeChannel fft self chunk;
          (self2, evs2) = run decodeChannel fft self1 chunks
      in (self2, evs1 @ evs2))"

fun run_samples ::
  "('c \<Rightarrow> nat \<Rightarrow> analyser \<Rightarrow> 'c decoded) \<Rightarrow>
   (real list \<Rightarrow> real list \<Rightarrow> (real list \<times> real list) option) \<Rightarrow>
   analyser \<Rightarrow> 'c list \<Rightarrow> real list" where
  "run_samples decodeChannel fft self [] = []"
| "run_samples decodeChannel fft self (chunk # chunks) =
     samples_of (decodeChannel chunk (channel self) self) @
     run_samples decodeChannel fft (fst (capture decodeChannel fft self chunk)) chunks"

text \<open>
  A decoder that writes to the analyser object only what belongs to the sample format:
  the configuration values the analyser reads, the buffer, the spectrum and the counters
  are as before the call.
\<close>

definition keeps_state :: "('c \<Rightarrow> nat \<Rightarrow> analyser \<Rightarrow> 'c decoded) \<Rightarrow> bool" where
  "keeps_state decodeChannel =
     (\<forall>chunk ch self.
        object_left (decodeChannel chunk ch self) =
          self\<lparr>props := props (object_left (decodeChannel chunk ch self))\<rparr>)"

subsection \<open>The stream side\<close>


datatype stream_effect =
    Push nat
  | Emit_data nat
  | Capture effect

text \<open>The references pushed downstream, and those emitted with the \<^verbatim>\<open>data\<close> event.\<close>

fun forwarded :: "stream_effect list \<Rightarrow> nat list" where
  "forwarded [] = []"
| "forwarded (Push c # es) = c # forwarded es"
| "forwarded (e # es) = forwarded es"

fun emitted :: "stream_effect list \<Rightarrow> nat list" where
  "emitted [] = []"
| "emitted (Emit_data c # es) = c # emitted es"
| "emitted (e # es) = emitted es"



subsection \<open>The accessors\<close>

text \<open>
  The loop of \<^verbatim>\<open>getFloatFrequencyData\<close> and \<^verbatim>\<open>getByteFrequencyData\<close>:
  \<^verbatim>\<open>for (i = 0; i < l; i++) arr[i] = conv(_fdata[i])\<close>.
\<close>

function freqLoop ::
  "(cell \<Rightarrow> 'a option) \<Rightarrow> cell list \<Rightarrow> nat \<Rightarrow> nat \<Rightarrow> 'a option list \<Rightarrow> 'a option list" where
  "freqLoop conv fd i l arr =
     (if i < l then freqLoop conv fd (Suc i) l (js_set arr i (conv (js_get_cell fd (int i))))
      else arr)"
  by pat_completeness auto
termination
  by (relation "measure (\<lambda>(conv, fd, i, l, arr). l - i)") auto

declare freqLoop.simps [simp del]

text \<open>
  The destination is \<open>None\<close> when the caller passed none (\<^verbatim>\<open>!arr\<close>; an array, also an
  empty one, is truthy).
\<close>

definition getFloatFrequencyData :: "analyser \<Rightarrow> cell list option \<Rightarrow> cell list option" where
  "getFloatFrequencyData self arr =
     (case arr of
        None \<Rightarrow> None
      | Some a \<Rightarrow>
          Some (freqLoop (\<lambda>x. x) (fdata self) 0 (min (frequencyBinCount self) (length a)) a))"

text \<open>
  \<open>convertSample\<close> is \<^verbatim>\<open>pcm.convertSample(x, {float: true}, {signed: false, bitDepth: 8})\<close>,
  the library's quantisation to an unsigned byte, a parameter.
\<close>

definition getByteFrequencyData ::
  "(cell \<Rightarrow> 'b) \<Rightarrow> analyser \<Rightarrow> 'b option list option \<Rightarrow> 'b option list option" where
  "getByteFrequencyData convertSample self arr =
     (case arr of
        None \<Rightarrow> None
      | Some a \<Rightarrow>
          Some (freqLoop (\<lambda>x. Some (convertSample x)) (fdata self) 0
                  (min (frequencyBinCount self) (length a)) a))"

text \<open>
  The loop of the two time domain accessors:
  \<^verbatim>\<open>for (c = 0, i = _data.length - fftSize, l = i + size; i < l; i++, c++) arr[c] = conv(_data[i])\<close>.
  The index \<open>i\<close> is negative while the buffer holds fewer than \<open>fftSize\<close> samples.
\<close>

function timeLoop ::
  "(cell \<Rightarrow> 'a option) \<Rightarrow> real list \<Rightarrow> nat \<Rightarrow> int \<Rightarrow> int \<Rightarrow> 'a option list \<Rightarrow> 'a option list" where
  "timeLoop conv d c i l arr =
     (if i < l then timeLoop conv d (Suc c) (i + 1) l (js_set arr c (conv (js_get d i)))
      else arr)"
  by pat_completeness auto
termination
  by (relation "measure (\<lambda>(conv, d, c, i, l, arr). nat (l - i))") auto

declare timeLoop.simps [simp del]

definition getFloatTimeDomainData :: "analyser \<Rightarrow> cell list option \<Rightarrow> cell list option" where
  "getFloatTimeDomainData self arr =
     (case arr of
        None \<Rightarrow> None
      | Some a \<Rightarrow>
          (let size1 = min (length a) (fftSize self);
               i = int (length (data self)) - int (fftSize self);
               l = i + int size1
           in Some (timeLoop (\<lambda>x. x) (data self) 0 i l a)))"

definition getByteTimeDomainData ::
  "(cell \<Rightarrow> 'b) \<Rightarrow> analyser \<Rightarrow> 'b option list option \<Rightarrow> 'b option list option" where
  "getByteTimeDomainData convertSample self arr =
     (case arr of
        None \<Rightarrow> None
      | Some a \<Rightarrow>
          (let size1 = min (length a) (fftSize self);
               i = int (length (data self)) - int (fftSize self);
               l = i + int size1
           in Some (timeLoop (\<lambda>x. Some (convertSample x)) (data self) 0 i l a)))"

text \<open>
  \<^verbatim>\<open>size || fftSize\<close>: the size argument is \<open>None\<close> when it was left out; \<open>0\<close> is
  falsy like a missing argument.
\<close>

definition js_or :: "nat option \<Rightarrow> nat \<Rightarrow> nat" where
  "js_or v d = (case v of None \<Rightarrow> d | Some n \<Rightarrow> if n = 0 then d else n)"

text \<open>The loop of \<^verbatim>\<open>getFrequencyData\<close>: \<^verbatim>\<open>result.push(_fdata[i])\<close> for \<open>i\<close> below the size.\<close>

function pushLoop :: "cell list \<Rightarrow> nat \<Rightarrow> nat \<Rightarrow> cell list \<Rightarrow> cell list" where
  "pushLoop fd i n result =
     (if i < n then pushLoop fd (Suc i) n (result @ [js_get_cell fd (int i)]) else result)"
  by pat_completeness auto
termination
  by (relation "measure (\<lambda>(fd, i, n, result). n - i)") auto

declare pushLoop.simps [simp del]

definition getFrequencyData :: "analyser \<Rightarrow> nat option \<Rightarrow> cell list" where
  "getFrequencyData self size0 =
     (let size1 = js_or size0 (fftSize self);
          size2 = min size1 (length (fdata self))
      in pushLoop (fdata self) 0 size2 [])"

definition getTimeData :: "analyser \<Rightarrow> nat option \<Rightarrow> real list" where
  "getTimeData self size0 =
     (let size1 = js_or size0 (fftSize self);
          size2 = min size1 (length (data self))
      in js_slice_neg (data self) size2)"

subsection \<open>The constructor\<close>

text \<open>
  The prototype: \<^verbatim>\<open>pcm.defaultFormat\<close> (the library's default format, a parameter)
  is copied onto it first, then the defaults of lines 50 to 70 are assigned. The literal
  \<^verbatim>\<open>0.2\<close> is the double nearest to \<open>2 / 10\<close>.
\<close>

definition extend :: "(string \<rightharpoonup> jsval) \<Rightarrow> (string \<rightharpoonup> jsval) \<Rightarrow> (string \<rightharpoonup> jsval)" where
  "extend target source = target ++ source"

definition prototype :: "(string \<rightharpoonup> jsval) \<Rightarrow> (string \<rightharpoonup> jsval)" where
  "prototype defaultFormat =
     (extend Map.empty defaultFormat)
       (''minDecibels'' \<mapsto> JNum (- 90),
        ''maxDecibels'' \<mapsto> JNum (- 30),
        ''fftSize'' \<mapsto> JNum 1024,
        ''smoothingTimeConstant'' \<mapsto> JNum (dbl (2 / 10)),
        ''frequencyBinCount'' \<mapsto> JNum (1024 / 2),
        ''throttle'' \<mapsto> JNum 50,
        ''bufferSize'' \<mapsto> JNum 44100,
        ''channel'' \<mapsto> JNum 0)"

text \<open>Reading a property as a number, and as a size (a whole number that is not negative).\<close>

definition num_of :: "jsval option \<Rightarrow> real option" where
  "num_of v = (case v of Some (JNum r) \<Rightarrow> Some r | _ \<Rightarrow> None)"

definition size_of :: "jsval option \<Rightarrow> nat option" where
  "size_of v =
     (case num_of v of
        None \<Rightarrow> None
      | Some r \<Rightarrow> if 0 \<le> r \<and> of_int \<lfloor>r\<rfloor> = r then Some (nat \<lfloor>r\<rfloor>) else None)"

text \<open>
  The names of the four properties the constructor assigns after it has copied the
  options: an option of one of these names is overwritten.
\<close>

definition internal_keys :: "string set" where
  "internal_keys = {''_data'', ''_fdata'', ''_timeoutCount'', ''_fftCount''}"

text \<open>
  \<^verbatim>\<open>new Analyser(options)\<close>: every key of the options is copied onto the object
  (\<^verbatim>\<open>extend(self, options)\<close>), where it shadows the prototype's property of that name;
  then the buffer, the spectrum and the counters are set. The result is \<open>None\<close> when a
  property that the code reads as a size, or the smoothing constant, is not such a
  number: those objects are outside this model. (The call of the stream's own constructor
  with the options is not modelled.)
\<close>

definition Analyser :: "(string \<rightharpoonup> jsval) \<Rightarrow> (string \<rightharpoonup> jsval) \<Rightarrow> analyser option" where
  "Analyser defaultFormat options =
     (let self = extend (prototype defaultFormat) options
      in case size_of (self ''fftSize'') of None \<Rightarrow> None | Some n \<Rightarrow>
         case num_of (self ''smoothingTimeConstant'') of None \<Rightarrow> None | Some k \<Rightarrow>
         case size_of (self ''frequencyBinCount'') of None \<Rightarrow> None | Some bins \<Rightarrow>
         case size_of (self ''throttle'') of None \<Rightarrow> None | Some t \<Rightarrow>
         case size_of (self ''bufferSize'') of None \<Rightarrow> None | Some b \<Rightarrow>
         case size_of (self ''channel'') of None \<Rightarrow> None | Some ch \<Rightarrow>
         case size_of (self ''sampleRate'') of None \<Rightarrow> None | Some sr \<Rightarrow>
           Some \<lparr>props = self |` (- internal_keys),
                 fftSize = n,
                 smoothingTimeConstant = k,
                 frequencyBinCount = bins,
                 throttle = t,
                 bufferSize = b,
                 channel = ch,
                 sampleRate = sr,
                 data = [],
                 fdata = replicate n (Some 0),
                 timeoutCount = Some 0,
                 fftCount = 0\<rparr>)"

text \<open>
  The properties that the analyser's own code reads from the object as its configuration
  (lines 33, 106, 111, 118 to 135, 153 and 166).
\<close>

definition read_keys :: "string set" where
  "read_keys =
     {''fftSize'', ''smoothingTimeConstant'', ''frequencyBinCount'', ''throttle'',
      ''bufferSize'', ''channel'', ''sampleRate''}"

text \<open>
  The configuration keys that the specification lists as recognised (its section 6): the
  analyser's options and the fields of the sample format.
\<close>

definition recognized_keys :: "string set" where
  "recognized_keys =
     {''fftSize'', ''smoothingTimeConstant'', ''throttle'', ''bufferSize'', ''channel'',
      ''minDecibels'', ''maxDecibels'', ''sampleRate'', ''channels'', ''bitDepth'',
      ''signed'', ''float'', ''endianness''}"

section \<open>The two libraries, as the specification describes them\<close>

text \<open>
  Modelled from the spec: the transform library (\<^verbatim>\<open>ndarray-fft\<close>) is not part of the
  repository. The specification describes it as the forward discrete Fourier transform of
  \<open>N\<close> complex values, given as \<open>N\<close> real and \<open>N\<close> imaginary parts. Output \<open>k\<close> is
  the sum over \<open>j\<close> of \<open>(re j + \<i> * im j) * exp (- 2 * pi * \<i> * k * j / N)\<close>. For two
  arrays that differ in length the library throws (the specification leaves the case to
  the implementer): that is \<open>None\<close>.
\<close>

definition dft_re :: "real list \<Rightarrow> real list \<Rightarrow> nat \<Rightarrow> real" where
  "dft_re re im k =
     (\<Sum>j < length re.
        re ! j * cos (2 * pi * real k * real j / real (length re)) +
        im ! j * sin (2 * pi * real k * real j / real (length re)))"

definition dft_im :: "real list \<Rightarrow> real list \<Rightarrow> nat \<Rightarrow> real" where
  "dft_im re im k =
     (\<Sum>j < length re.
        im ! j * cos (2 * pi * real k * real j / real (length re)) -
        re ! j * sin (2 * pi * real k * real j / real (length re)))"

definition forwardTransform :: "real list \<Rightarrow> real list \<Rightarrow> (real list \<times> real list) option" where
  "forwardTransform re im =
     (if length re = length im
      then Some (map (dft_re re im) [0..<length re], map (dft_im re im) [0..<length re])
      else None)"

text \<open>
  Modelled from the spec: the sample decoder (\<^verbatim>\<open>pcm-util\<close>) is not part of the
  repository. For a chunk in the mono float format the decoded samples of channel \<open>0\<close>
  are the chunk's own values, and the chunk is given here as that sequence; a mono chunk
  has no other channel. The decoder of the specification is a function of the chunk, the
  channel and the format: it leaves the chunk and the analyser as they are.
\<close>

definition decodeMonoFloat :: "real list \<Rightarrow> nat \<Rightarrow> analyser \<Rightarrow> real list decoded" where
  "decodeMonoFloat chunk ch self =
     \<lparr>chunk_left = chunk, object_left = self, samples = Some (if ch = 0 then chunk else [])\<rparr>"

text \<open>
  Modelled from the spec: the library's default format, of which only the sample rate
  (\<open>44100\<close>) is read by the analyser's own code.
\<close>

definition defaultFormat :: "string \<rightharpoonup> jsval" where
  "defaultFormat = [''sampleRate'' \<mapsto> JNum 44100]"

section \<open>An analyser in the middle of its work\<close>

text \<open>
  A small analyser with a window of two samples, a buffer of three, one sample counted
  towards the next transform, and a throttle of 50 ms at 100 samples per second.
\<close>

definition example_analyser :: analyser where
  "example_analyser =
     \<lparr>props = Map.empty,
      fftSize = 2,
      smoothingTimeConstant = 1 / 2,
      frequencyBinCount = 1,
      throttle = 50,
      bufferSize = 3,
      channel = 0,
      sampleRate = 100,
      data = [5, 6],
      fdata = [Some 1, Some 2],
      timeoutCount = Some 4,
      fftCount = 1\<rparr>"

section \<open>The analyser of the end-to-end scenario\<close>

text \<open>
  The options of the scenario of section 8 of the specification: a window of four samples,
  no smoothing, channel \<open>0\<close>; and the analyser the constructor makes of them.
\<close>

definition scenario_options :: "string \<rightharpoonup> jsval" where
  "scenario_options =
     [''fftSize'' \<mapsto> JNum 4, ''smoothingTimeConstant'' \<mapsto> JNum 0, ''channel'' \<mapsto> JNum 0]"

definition scenario_analyser :: analyser where
  "scenario_analyser =
     \<lparr>props = extend (prototype defaultFormat) scenario_options |` (- internal_keys),
      fftSize = 4,
      smoothingTimeConstant = 0,
      frequencyBinCount = 512,
      throttle = 50,
      bufferSize = 44100,
      channel = 0,
      sampleRate = 44100,
      data = [],
      fdata = [Some 0, Some 0, Some 0, Some 0],
      timeoutCount = Some 0,
      fftCount = 0\<rparr>"

section \<open>Two more analysers\<close>

text \<open>
  The analyser constructed with a window of four samples and a buffer of two, and the one
  constructed with a window of four samples and nothing else.
\<close>

definition small_options :: "string \<rightharpoonup> jsval" where
  "small_options = [''fftSize'' \<mapsto> JNum 4, ''bufferSize'' \<mapsto> JNum 2]"

definition small_analyser :: analyser where
  "small_analyser =
     \<lparr>props = extend (prototype defaultFormat) small_options |` (- internal_keys),
      fftSize = 4,
      smoothingTimeConstant = dbl (2 / 10),
      frequencyBinCount = 512,
      throttle = 50,
      bufferSize = 2,
      channel = 0,
      sampleRate = 44100,
      data = [],
      fdata = [Some 0, Some 0, Some 0, Some 0],
      timeoutCount = Some 0,
      fftCount = 0\<rparr>"

definition plain_options :: "string \<rightharpoonup> jsval" where
  "plain_options = [''fftSize'' \<mapsto> JNum 4]"

definition plain_analyser :: analyser where
  "plain_analyser =
     \<lparr>props = extend (prototype defaultFormat) plain_options |` (- internal_keys),
      fftSize = 4,
      smoothingTimeConstant = dbl (2 / 10),
      frequencyBinCount = 512,
      throttle = 50,
      bufferSize = 44100,
      channel = 0,
      sampleRate = 44100,
      data = [],
      fdata = [Some 0, Some 0, Some 0, Some 0],
      timeoutCount = Some 0,
      fftCount = 0\<rparr>"

section \<open>Properties of the primitives\<close>

lemma js_slice_neg_pos: "0 < n \<Longrightarrow> js_slice_neg xs n = drop (length xs - n) xs"
  by (simp add: js_slice_neg_def)


lemma js_get_cell_update:
  "js_get_cell (fd[i := v]) (int j) = (if j = i \<and> i < length fd then v else js_get_cell fd (int j))"
  by (auto simp: js_get_cell_def js_get_def)

lemma js_smooth_None: "js_smooth k n None x = None"
  by (simp add: js_smooth_def js_times_def js_plus_def js_f32_def)

lemma smoothLoop_cell:
  "js_get_cell (smoothLoop k n inputRe i fd) (int j) =
     (if i \<le> j \<and> j < n
      then js_smooth k n (js_get_cell fd (int j)) (js_get inputRe (int j))
      else js_get_cell fd (int j))"
proof (induction k n inputRe i fd rule: smoothLoop.induct)
  case (1 k n inputRe i fd)
  show ?case
  proof (cases "i < n")
    case True
    have none: "js_get_cell fd (int i) = None" if "\<not> i < length fd"
      using that by (simp add: js_get_cell_def js_get_def)
    show ?thesis
    proof (cases "j = i")
      case True
      with \<open>i < n\<close> "1" show ?thesis
        by (subst smoothLoop.simps) (auto simp: js_get_cell_update none js_smooth_None)
    next
      case False
      with \<open>i < n\<close> "1" show ?thesis
        by (subst smoothLoop.simps) (auto simp: js_get_cell_update)
    qed
  next
    case False
    then show ?thesis by (subst smoothLoop.simps) auto
  qed
qed

section \<open>Rounding\<close>

lemma round_even_of_int [simp]: "round_even (of_int z) = z"
  by (simp add: round_even_def)

text \<open>The rounding of a number whose binary exponent is known.\<close>

lemma ieee_round_eval:
  assumes "2 powr of_int e \<le> \<bar>x\<bar>" and "\<bar>x\<bar> < 2 powr (of_int e + 1)" and "emin \<le> e"
  shows "ieee_round p emin x =
           2 powr (of_int e - real p + 1) * of_int (round_even (x / 2 powr (of_int e - real p + 1)))"
proof -
  have pos: "0 < \<bar>x\<bar>"
    using assms(1) by (smt (verit) powr_gt_zero)
  then have "\<lfloor>log 2 \<bar>x\<bar>\<rfloor> = e"
    using assms(1,2) by (simp add: floor_log_eq_powr_iff)
  with pos assms(3) show ?thesis
    by (simp add: ieee_round_def Let_def max_def)
qed

text \<open>A number of the format is its own rounding.\<close>

lemma ieee_round_exact:
  fixes n j :: int
  assumes x: "x = of_int n * 2 powr (- of_int j)"
    and n: "\<bar>n\<bar> < 2 ^ p"
    and j: "j \<le> int p - 1 - emin"
  shows "ieee_round p emin x = x"
proof (cases "x = 0")
  case True
  then show ?thesis by (simp add: ieee_round_def)
next
  case False
  define e where "e = \<lfloor>log 2 \<bar>x\<bar>\<rfloor>"
  define E where "E = max emin e"
  define u :: real where "u = 2 powr (of_int E - real p + 1)"
  have pos: "0 < \<bar>x\<bar>" using False by simp
  have lo: "2 powr of_int e \<le> \<bar>x\<bar>"
    using pos floor_log_eq_powr_iff [of "\<bar>x\<bar>" 2 e] by (simp add: e_def)
  have "\<bar>x\<bar> = \<bar>of_int n\<bar> * 2 powr (- of_int j)"
    by (simp add: x abs_mult)
  also have "\<dots> < 2 ^ p * 2 powr (- of_int j)"
  proof -
    have "\<bar>of_int n :: real\<bar> < 2 ^ p"
      using n by (metis of_int_abs of_int_less_numeral_power_cancel_iff)
    then show ?thesis by simp
  qed
  also have "\<dots> = 2 powr (real p - of_int j)"
    by (simp add: powr_diff powr_realpow powr_minus_divide)
  finally have "2 powr of_int e < 2 powr (real p - of_int j)"
    using lo by linarith
  then have "of_int e < real p - of_int j"
    by simp
  then have "e < int p - j"
    by linarith
  with j have E: "E \<le> int p - 1 - j"
    by (simp add: E_def)
  define t where "t = nat (int p - 1 - j - E)"
  have t: "int t = int p - 1 - j - E"
    using E by (simp add: t_def)
  have "x / u = of_int n * 2 powr (- of_int j - (of_int E - real p + 1))"
    by (simp add: x u_def powr_diff)
  also have "- of_int j - (of_int E - real p + 1) = real t"
    using t by linarith
  also have "of_int n * 2 powr real t = of_int (n * 2 ^ t)"
    by (simp add: powr_realpow)
  finally have q: "x / u = of_int (n * 2 ^ t)" .
  have upos: "u \<noteq> 0" by (simp add: u_def)
  have "ieee_round p emin x = u * of_int (round_even (x / u))"
    using False by (simp add: ieee_round_def Let_def e_def E_def u_def)
  also have "\<dots> = u * (x / u)"
    unfolding q by (simp only: round_even_of_int)
  also have "\<dots> = x"
    using upos by simp
  finally show ?thesis .
qed

lemma ieee_round_dyadic:
  fixes n :: int
  assumes "\<bar>n\<bar> < 2 ^ p" and "int k \<le> int p - 1 - emin"
  shows "ieee_round p emin (of_int n / 2 ^ k) = of_int n / 2 ^ k"
  by (rule ieee_round_exact [where n = n and j = "int k"])
     (use assms in \<open>simp_all add: powr_minus_divide powr_realpow\<close>)

lemma to_double_dyadic:
  fixes n :: int
  assumes "\<bar>n\<bar> < 2 ^ 53" and "k \<le> 1074"
  shows "to_double (of_int n / 2 ^ k) = Some (of_int n / 2 ^ k)"
proof -
  have r: "dbl (of_int n / 2 ^ k) = of_int n / 2 ^ k"
    unfolding dbl_def using assms by (intro ieee_round_dyadic) simp_all
  have "\<bar>of_int n / 2 ^ k :: real\<bar> \<le> \<bar>of_int n\<bar>"
    by (simp add: abs_divide field_simps mult_le_cancel_left1)
  also have "\<bar>of_int n :: real\<bar> < 2 ^ 53"
    using assms(1) by (metis of_int_abs of_int_less_numeral_power_cancel_iff)
  also have "(2 :: real) ^ 53 < 2 ^ 1024"
    by (rule power_strict_increasing) simp_all
  finally show ?thesis
    by (simp add: to_double_def r)
qed

lemma to_float32_dyadic:
  fixes n :: int
  assumes "\<bar>n\<bar> < 2 ^ 24" and "k \<le> 149"
  shows "to_float32 (of_int n / 2 ^ k) = Some (of_int n / 2 ^ k)"
proof -
  have r: "ieee_round 24 (- 126) (of_int n / 2 ^ k) = of_int n / 2 ^ k"
    using assms by (intro ieee_round_dyadic) simp_all
  have "\<bar>of_int n / 2 ^ k :: real\<bar> \<le> \<bar>of_int n\<bar>"
    by (simp add: abs_divide field_simps mult_le_cancel_left1)
  also have "\<bar>of_int n :: real\<bar> < 2 ^ 24"
    using assms(1) by (metis of_int_abs of_int_less_numeral_power_cancel_iff)
  also have "(2 :: real) ^ 24 < 2 ^ 128"
    by (rule power_strict_increasing) simp_all
  finally show ?thesis
    by (simp add: to_float32_def r)
qed

lemma to_double_zero [simp]: "to_double 0 = Some 0"
  by (simp add: to_double_def dbl_def ieee_round_def)

lemma to_float32_zero [simp]: "to_float32 0 = Some 0"
  by (simp add: to_float32_def ieee_round_def)

section \<open>The steps of a capture call\<close>

lemma throttle_step_fdata: "fdata (fst (throttle_step self)) = fdata self"
  and throttle_step_fftCount: "fftCount (fst (throttle_step self)) = fftCount self"
  and throttle_step_data: "data (fst (throttle_step self)) = data self"
  and throttle_step_fft_calls: "fft_calls (snd (throttle_step self)) = []"
  and throttle_step_no_throw: "Thrown \<notin> set (snd (throttle_step self))"
  by (simp_all add: throttle_step_def)

lemma throttle_step_config:
  "bufferSize (fst (throttle_step self)) = bufferSize self"
  "channel (fst (throttle_step self)) = channel self"
  "props (fst (throttle_step self)) = props self"
  "fftSize (fst (throttle_step self)) = fftSize self"
  "smoothingTimeConstant (fst (throttle_step self)) = smoothingTimeConstant self"
  by (simp_all add: throttle_step_def)

lemma throttle_step_completions:
  "completions (snd (throttle_step self)) =
     (if throttle self \<noteq> 0 \<and>
         js_gt (js_div (timeoutCount self) (sampleRate self)) (dbl (real (throttle self) / 1000))
      then [SetTimeout_callback] else [Callback])"
  and throttle_step_timeoutCount:
  "timeoutCount (fst (throttle_step self)) =
     (if throttle self \<noteq> 0 \<and>
         js_gt (js_div (timeoutCount self) (sampleRate self)) (dbl (real (throttle self) / 1000))
      then js_mod (timeoutCount self) (nat \<lfloor>dbl (real (sampleRate self) / real (throttle self))\<rfloor>)
      else timeoutCount self)"
  by (simp_all add: throttle_step_def completions_def)

lemma appended_simps [simp]:
  "data (appended self cd) = js_slice_neg (data self @ cd) (bufferSize self)"
  "fftCount (appended self cd) = fftCount self + length cd"
  "timeoutCount (appended self cd) = js_add (timeoutCount self) (length cd)"
  "fdata (appended self cd) = fdata self"
  "fftSize (appended self cd) = fftSize self"
  "throttle (appended self cd) = throttle self"
  "sampleRate (appended self cd) = sampleRate self"
  by (simp_all add: appended_def)

lemma capture_samples_data:
  "data (fst (capture_samples fft self cd)) = js_slice_neg (data self @ cd) (bufferSize self)"
  by (simp add: capture_samples_def Let_def case_prod_beta throttle_step_data split: option.split)

lemma capture_samples_config:
  "bufferSize (fst (capture_samples fft self cd)) = bufferSize self"
  "channel (fst (capture_samples fft self cd)) = channel self"
  "props (fst (capture_samples fft self cd)) = props self"
  "fftSize (fst (capture_samples fft self cd)) = fftSize self"
  "smoothingTimeConstant (fst (capture_samples fft self cd)) = smoothingTimeConstant self"
  by (simp_all add: capture_samples_def Let_def case_prod_beta throttle_step_config split: option.split)

lemma capture_no_trigger:
  assumes "\<not> fftSize self \<le> fftCount self + length cd"
  shows "capture_samples fft self cd = throttle_step (appended self cd)"
  using assms by (simp add: capture_samples_def appended_def Let_def)

lemma capture_thrown:
  assumes "fftSize self \<le> fftCount self + length cd"
    and "s1 = appended self cd"
    and "fft (js_slice_neg (data s1) (fftSize self)) (replicate (fftSize self) 0) = None"
  shows "capture_samples fft self cd =
           (s1\<lparr>fftCount := 0\<rparr>,
            [Fft_call (js_slice_neg (data s1) (fftSize self)) (replicate (fftSize self) 0), Thrown])"
  using assms by (simp add: capture_samples_def appended_def Let_def)

lemma capture_trigger:
  assumes "fftSize self \<le> fftCount self + length cd"
    and "s1 = appended self cd"
    and "fft (js_slice_neg (data s1) (fftSize self)) (replicate (fftSize self) 0) = Some (outRe, outIm)"
    and "s3 = s1\<lparr>fftCount := 0,
                  fdata := smoothLoop (smoothingTimeConstant self) (fftSize self) outRe 0 (fdata self)\<rparr>"
  shows "capture_samples fft self cd =
           (fst (throttle_step s3),
            Fft_call (js_slice_neg (data s1) (fftSize self)) (replicate (fftSize self) 0)
              # snd (throttle_step s3))"
  using assms by (simp add: capture_samples_def appended_def Let_def case_prod_beta)

text \<open>A capture call in terms of what the decoder returned.\<close>

lemma capture_decoded:
  assumes "samples (decodeChannel chunk (channel self) self) = Some cd"
  shows "capture decodeChannel fft self chunk =
           (fst (capture_samples fft (object_left (decodeChannel chunk (channel self) self)) cd),
            snd (capture_samples fft (object_left (decodeChannel chunk (channel self) self)) cd),
            chunk_left (decodeChannel chunk (channel self) self))"
  using assms by (simp add: capture_def Let_def case_prod_beta)

lemma capture_decoder_throws:
  assumes "samples (decodeChannel chunk (channel self) self) = None"
  shows "capture decodeChannel fft self chunk =
           (object_left (decodeChannel chunk (channel self) self), [Thrown],
            chunk_left (decodeChannel chunk (channel self) self))"
  using assms by (simp add: capture_def Let_def)


lemma capture_mono:
  "capture decodeMonoFloat fft self chunk =
     (fst (capture_samples fft self (if channel self = 0 then chunk else [])),
      snd (capture_samples fft self (if channel self = 0 then chunk else [])),
      chunk)"
  by (simp add: capture_def decodeMonoFloat_def Let_def case_prod_beta)

lemma capture_data:
  "data (fst (capture decodeMonoFloat fft self chunk)) =
     js_slice_neg (data self @ (if channel self = 0 then chunk else [])) (bufferSize self)"
  by (simp add: capture_mono capture_samples_data)

lemma capture_config:
  "bufferSize (fst (capture decodeMonoFloat fft self chunk)) = bufferSize self"
  "channel (fst (capture decodeMonoFloat fft self chunk)) = channel self"
  "props (fst (capture decodeMonoFloat fft self chunk)) = props self"
  "fftSize (fst (capture decodeMonoFloat fft self chunk)) = fftSize self"
  "smoothingTimeConstant (fst (capture decodeMonoFloat fft self chunk)) = smoothingTimeConstant self"
  by (simp_all add: capture_mono capture_samples_config)

lemma capture_quiet_summary:
  assumes "\<not> fftSize s \<le> fftCount s + length cd"
  shows "fftCount (fst (capture_samples f s cd)) = fftCount s + length cd"
    and "fdata (fst (capture_samples f s cd)) = fdata s"
    and "fft_calls (snd (capture_samples f s cd)) = []"
    and "Thrown \<notin> set (snd (capture_samples f s cd))"
  using assms
  by (simp_all add: capture_no_trigger throttle_step_fftCount throttle_step_fdata
        throttle_step_fft_calls throttle_step_no_throw)

lemma capture_trigger_summary:
  assumes "fftSize s \<le> fftCount s + length cd"
    and "w = js_slice_neg (data (fst (capture_samples f s cd))) (fftSize s)"
  shows "fftCount (fst (capture_samples f s cd)) = 0"
    and "fft_calls (snd (capture_samples f s cd)) = [(w, replicate (fftSize s) 0)]"
    and "f w (replicate (fftSize s) 0) = None \<Longrightarrow>
           fdata (fst (capture_samples f s cd)) = fdata s \<and>
           Thrown \<in> set (snd (capture_samples f s cd))"
    and "f w (replicate (fftSize s) 0) = Some (re, im) \<Longrightarrow>
           fdata (fst (capture_samples f s cd)) =
             smoothLoop (smoothingTimeConstant s) (fftSize s) re 0 (fdata s) \<and>
           Thrown \<notin> set (snd (capture_samples f s cd))"
proof -
  define s1 where "s1 = appended s cd"
  have w: "w = js_slice_neg (data s1) (fftSize s)"
    by (simp add: assms(2) capture_samples_data s1_def)
  show "fftCount (fst (capture_samples f s cd)) = 0"
  proof (cases "f w (replicate (fftSize s) 0)")
    case None
    with capture_thrown [where fft = f, OF assms(1) s1_def] w show ?thesis by simp
  next
    case (Some p)
    obtain re im where "p = (re, im)" by (cases p)
    with Some capture_trigger [where fft = f and outRe = re and outIm = im, OF assms(1) s1_def _ refl] w
    show ?thesis by (simp add: throttle_step_fftCount)
  qed
  show "fft_calls (snd (capture_samples f s cd)) = [(w, replicate (fftSize s) 0)]"
  proof (cases "f w (replicate (fftSize s) 0)")
    case None
    with capture_thrown [where fft = f, OF assms(1) s1_def] w show ?thesis by simp
  next
    case (Some p)
    obtain re im where "p = (re, im)" by (cases p)
    with Some capture_trigger [where fft = f and outRe = re and outIm = im, OF assms(1) s1_def _ refl] w
    show ?thesis by (simp add: throttle_step_fft_calls)
  qed
  show "fdata (fst (capture_samples f s cd)) = fdata s \<and>
        Thrown \<in> set (snd (capture_samples f s cd))"
    if "f w (replicate (fftSize s) 0) = None"
    using capture_thrown [where fft = f, OF assms(1) s1_def] w that by (simp add: s1_def)
  show "fdata (fst (capture_samples f s cd)) =
             smoothLoop (smoothingTimeConstant s) (fftSize s) re 0 (fdata s) \<and>
           Thrown \<notin> set (snd (capture_samples f s cd))"
    if "f w (replicate (fftSize s) 0) = Some (re, im)"
    using capture_trigger [where fft = f and outRe = re and outIm = im, OF assms(1) s1_def _ refl] w that
    by (simp add: throttle_step_fdata throttle_step_no_throw)
qed

text \<open>The completion of the call, from the decoded samples on.\<close>

lemma capture_samples_completion:
  assumes c: "c = js_add (timeoutCount s) (length cd)"
    and due: "due = (throttle s \<noteq> 0 \<and>
                     js_gt (js_div c (sampleRate s)) (dbl (real (throttle s) / 1000)))"
    and w: "w = js_slice_neg (data (fst (capture_samples f s cd))) (fftSize s)"
  shows "(Thrown \<in> set (snd (capture_samples f s cd)) \<longleftrightarrow>
            fftSize s \<le> fftCount s + length cd \<and> f w (replicate (fftSize s) 0) = None) \<and>
         (Thrown \<in> set (snd (capture_samples f s cd)) \<longrightarrow>
            completions (snd (capture_samples f s cd)) = [] \<and>
            timeoutCount (fst (capture_samples f s cd)) = c) \<and>
         (Thrown \<notin> set (snd (capture_samples f s cd)) \<longrightarrow>
            completions (snd (capture_samples f s cd)) =
              (if due then [SetTimeout_callback] else [Callback]) \<and>
            timeoutCount (fst (capture_samples f s cd)) =
              (if due then js_mod c (nat \<lfloor>dbl (real (sampleRate s) / real (throttle s))\<rfloor>) else c))"
proof -
  define s1 where "s1 = appended s cd"
  have tc1: "timeoutCount s1 = c" and sr1: "sampleRate s1 = sampleRate s"
    and th1: "throttle s1 = throttle s"
    by (simp_all add: s1_def c)
  have w1: "w = js_slice_neg (data s1) (fftSize s)"
    by (simp add: w capture_samples_data s1_def)
  consider (quiet) "\<not> fftSize s \<le> fftCount s + length cd"
    | (thrown) "fftSize s \<le> fftCount s + length cd" "f w (replicate (fftSize s) 0) = None"
    | (ran) outRe outIm where "fftSize s \<le> fftCount s + length cd"
        "f w (replicate (fftSize s) 0) = Some (outRe, outIm)"
    by (cases "f w (replicate (fftSize s) 0)") auto
  then show ?thesis
  proof cases
    case quiet
    then have "capture_samples f s cd = throttle_step s1"
      by (simp add: capture_no_trigger s1_def)
    then show ?thesis
      using quiet
      by (simp add: throttle_step_completions throttle_step_timeoutCount
            throttle_step_no_throw tc1 sr1 th1 due)
  next
    case thrown
    have "capture_samples f s cd = (s1\<lparr>fftCount := 0\<rparr>, [Fft_call w (replicate (fftSize s) 0), Thrown])"
      using capture_thrown [where fft = f, OF thrown(1) s1_def] thrown(2) by (simp add: w1)
    then show ?thesis
      using thrown by (simp add: completions_def tc1)
  next
    case ran
    define s3 where "s3 = s1\<lparr>fftCount := 0,
        fdata := smoothLoop (smoothingTimeConstant s) (fftSize s) outRe 0 (fdata s)\<rparr>"
    have tc3: "timeoutCount s3 = c" and sr3: "sampleRate s3 = sampleRate s"
      and th3: "throttle s3 = throttle s"
      by (simp_all add: s3_def tc1 sr1 th1)
    have "capture_samples f s cd =
            (fst (throttle_step s3), Fft_call w (replicate (fftSize s) 0) # snd (throttle_step s3))"
      using capture_trigger [where fft = f, OF ran(1) s1_def _ s3_def] ran(2) by (simp add: w1)
    then show ?thesis
      using ran(2)
      by (simp add: completions_def [of "_ # _"] throttle_step_no_throw
            throttle_step_completions [unfolded completions_def] throttle_step_timeoutCount
            tc3 sr3 th3 due)
  qed
qed

section \<open>The numbers of the examples\<close>

lemmas double_values =
  to_double_dyadic [of 1 0, simplified]
  to_double_dyadic [of 2 0, simplified]
  to_double_dyadic [of 1 1, simplified]
  to_double_dyadic [of "- 1" 1, simplified]
  to_double_dyadic [of "- 1" 2, simplified]
  to_double_dyadic [of 3 2, simplified]
  to_double_dyadic [of 13 0, simplified]
  to_double_dyadic [of 13 1, simplified]
  to_double_dyadic [of 13 2, simplified]
  to_double_dyadic [of 15 0, simplified]
  to_double_dyadic [of 15 1, simplified]
  to_double_dyadic [of 15 2, simplified]
  to_double_dyadic [of 17 2, simplified]

lemmas float32_values =
  to_float32_dyadic [of 1 1, simplified]
  to_float32_dyadic [of 3 2, simplified]
  to_float32_dyadic [of 15 2, simplified]
  to_float32_dyadic [of 17 2, simplified]

lemmas js_arith = js_smooth_def js_times_def js_plus_def js_minus_def js_over_size_def js_f32_def

text \<open>The double nearest to \<open>0.2\<close>, the default of the smoothing constant.\<close>

lemma dbl_fifth: "dbl (2 / 10) = 3602879701896397 / 2 ^ 54"
  unfolding dbl_def
  apply (subst ieee_round_eval [where e = "- 3"])
  apply (simp_all add: powr_minus_divide powr_numeral)
  apply (simp add: round_even_def Let_def)
  done

text \<open>The quotients of the throttle in the examples.\<close>

lemma dbl_twentieth: "dbl (1 / 20) = 3602879701896397 / 2 ^ 56"
  unfolding dbl_def
  apply (subst ieee_round_eval [where e = "- 5"])
  apply (simp_all add: powr_minus_divide powr_numeral)
  apply (simp add: round_even_def Let_def)
  done

lemma dbl_three_fiftieths: "dbl (3 / 50) = 1080863910568919 / 2 ^ 54"
  unfolding dbl_def
  apply (subst ieee_round_eval [where e = "- 5"])
  apply (simp_all add: powr_minus_divide powr_numeral)
  apply (simp add: round_even_def Let_def)
  done

lemma dbl_small_quotient: "dbl (1 / 11025) = 6692696262570359 / 2 ^ 66"
  unfolding dbl_def
  apply (subst ieee_round_eval [where e = "- 14"])
  apply (simp_all add: powr_minus_divide powr_numeral)
  apply (simp add: round_even_def Let_def)
  done

lemma dbl_two: "dbl 2 = 2"
  unfolding dbl_def using ieee_round_dyadic [of 2 53 0 "- 1022"] by simp

lemma one_minus_fifth: "to_double (1 - 3602879701896397 / 2 ^ 54) = Some (3602879701896397 / 2 ^ 52)"
  unfolding to_double_def dbl_def
  apply (subst ieee_round_eval [where e = "- 1"])
  apply (simp_all add: powr_minus_divide powr_numeral)
  apply (subst ieee_round_eval [where e = "- 1"])
  apply (simp_all add: powr_minus_divide powr_numeral)
  apply (simp_all add: round_even_def Let_def)
  done

lemma float32_two_fifths: "to_float32 (3602879701896397 / 2 ^ 53) = Some (13421773 / 2 ^ 25)"
  unfolding to_float32_def
  apply (subst ieee_round_eval [where e = "- 2"])
  apply (simp_all add: powr_minus_divide powr_numeral)
  apply (subst ieee_round_eval [where e = "- 2"])
  apply (simp_all add: powr_minus_divide powr_numeral)
  apply (simp_all add: round_even_def Let_def)
  done

text \<open>
  One step of the smoothing with the default constant, from the bin \<open>0\<close> and the
  transform output \<open>2\<close> for a window of four samples: the result is the single precision
  number nearest to \<open>0.4\<close>.
\<close>

lemma smooth_default: "js_smooth (dbl (2 / 10)) 4 (Some 0) (Some 2) = Some (13421773 / 2 ^ 25)"
proof -
  have a: "js_times (Some (dbl (2 / 10))) (Some 0) = Some 0"
    by (simp add: js_times_def)
  have b: "js_minus (Some 1) (Some (dbl (2 / 10))) = Some (3602879701896397 / 2 ^ 52)"
    by (simp only: js_minus_def option.case dbl_fifth one_minus_fifth)
  have "(3602879701896397 / 2 ^ 52 * 2 :: real) = real_of_int 3602879701896397 / 2 ^ 51"
    by simp
  then have c: "js_times (Some (3602879701896397 / 2 ^ 52)) (Some 2) = Some (3602879701896397 / 2 ^ 51)"
    using to_double_dyadic [of 3602879701896397 51] by (simp add: js_times_def)
  have "(3602879701896397 / 2 ^ 51 / real 4 :: real) = real_of_int 3602879701896397 / 2 ^ 53"
    by simp
  then have d: "js_over_size (Some (3602879701896397 / 2 ^ 51)) 4 = Some (3602879701896397 / 2 ^ 53)"
    using to_double_dyadic [of 3602879701896397 53] by (simp add: js_over_size_def)
  have "(0 + 3602879701896397 / 2 ^ 53 :: real) = real_of_int 3602879701896397 / 2 ^ 53"
    by simp
  then have e: "js_plus (Some 0) (Some (3602879701896397 / 2 ^ 53)) = Some (3602879701896397 / 2 ^ 53)"
    using to_double_dyadic [of 3602879701896397 53] by (simp add: js_plus_def)
  have f: "js_f32 (Some (3602879701896397 / 2 ^ 53)) = Some (13421773 / 2 ^ 25)"
    by (simp only: js_f32_def option.case float32_two_fifths)
  show ?thesis
    by (simp only: js_smooth_def a b c d e f)
qed

lemma smooth_example:
  "js_smooth (1 / 2) 2 (Some 2) (Some (- 1)) = Some (3 / 4)"
  "js_smooth (1 / 2) 2 (Some 1) (Some 13) = Some (15 / 4)"
  "js_smooth (1 / 2) 2 (Some 1) (Some 15) = Some (17 / 4)"
  by (simp_all add: js_arith double_values float32_values)

lemma smooth_scenario:
  "js_smooth 0 4 (Some 0) (Some 0) = Some 0"
  "js_smooth 0 4 (Some 0) (Some 2) = Some (1 / 2)"
  by (simp_all add: js_arith double_values float32_values)

section \<open>The transforms of the examples\<close>

lemma replicate_two: "replicate 2 x = [x, x]"
  by (simp add: numeral_2_eq_2)

lemma replicate_four: "replicate 4 x = [x, x, x, x]"
  by (simp add: numeral_eq_Suc)

lemma dft2: "forwardTransform [a, b] [0, 0] = Some ([a + b, a - b], [0, 0])"
  by (simp add: forwardTransform_def dft_re_def dft_im_def upt_rec lessThan_Suc numeral_2_eq_2)

lemma cos3: "cos (3 * pi) = - 1" and sin3: "sin (3 * pi) = 0"
  using cos_npi [of 3] sin_npi [of 3] by simp_all

lemma dft4: "forwardTransform [1, 0, - 1, 0] [0, 0, 0, 0] = Some ([0, 2, 0, 2], [0, 0, 0, 0])"
  by (simp add: forwardTransform_def dft_re_def dft_im_def upt_rec cos3 sin3)

lemma dft_short: "forwardTransform [a, b] [0, 0, 0, 0] = None"
  by (simp add: forwardTransform_def)

section \<open>The spectral estimator\<close>


section \<open>The example analysers at work\<close>

lemma size_of_num:
  "size_of (Some (JNum (numeral w))) = Some (numeral w)"
  "size_of (Some (JNum 0)) = Some 0"
  "size_of (Some (JNum 1)) = Some 1"
  by (simp_all add: size_of_def num_of_def)

lemma Analyser_small: "Analyser defaultFormat small_options = Some small_analyser"
  by (simp add: Analyser_def Let_def extend_def prototype_def defaultFormat_def small_options_def
        small_analyser_def size_of_num size_of_def num_of_def replicate_four)

lemma Analyser_plain: "Analyser defaultFormat plain_options = Some plain_analyser"
  by (simp add: Analyser_def Let_def extend_def prototype_def defaultFormat_def plain_options_def
        plain_analyser_def size_of_num size_of_def num_of_def replicate_four)

text \<open>
  The analyser with a window of four samples and a buffer of two is given four samples:
  the buffer keeps the last two, the transform is due, and the transform library is handed
  two real parts and four imaginary parts.
\<close>

lemma small_samples:
  "capture_samples forwardTransform small_analyser [1, 2, 3, 4] =
     (small_analyser\<lparr>data := [3, 4], timeoutCount := Some 4, fftCount := 0\<rparr>,
      [Fft_call [3, 4] [0, 0, 0, 0], Thrown])"
proof -
  have t: "fftSize small_analyser \<le> fftCount small_analyser + length [1, 2, 3, 4 :: real]"
    by (simp add: small_analyser_def)
  have w: "js_slice_neg (data (appended small_analyser [1, 2, 3, 4])) (fftSize small_analyser) = [3, 4]"
    by (simp add: small_analyser_def js_slice_neg_def)
  have z: "replicate (fftSize small_analyser) (0 :: real) = [0, 0, 0, 0]"
    by (simp add: small_analyser_def replicate_four)
  have "capture_samples forwardTransform small_analyser [1, 2, 3, 4] =
          ((appended small_analyser [1, 2, 3, 4])\<lparr>fftCount := 0\<rparr>,
           [Fft_call [3, 4] [0, 0, 0, 0], Thrown])"
    using capture_thrown [where fft = forwardTransform, OF t refl, unfolded w z, OF dft_short] .
  then show ?thesis
    by (simp add: appended_def small_analyser_def js_slice_neg_def js_add_def)
qed

lemma small_capture:
  "capture decodeMonoFloat forwardTransform small_analyser [1, 2, 3, 4] =
     (small_analyser\<lparr>data := [3, 4], timeoutCount := Some 4, fftCount := 0\<rparr>,
      [Fft_call [3, 4] [0, 0, 0, 0], Thrown], [1, 2, 3, 4])"
proof -
  have "channel small_analyser = 0"
    by (simp add: small_analyser_def)
  then show ?thesis
    by (simp add: capture_mono small_samples)
qed

text \<open>
  The analyser with a window of four samples and the defaults is given the four samples of
  the scenario: the transform runs, and bin \<open>1\<close> is the result of one smoothing step.
\<close>

lemma plain_samples:
  "Thrown \<notin> set (snd (capture_samples forwardTransform plain_analyser [1, 0, - 1, 0]))"
  "fft_calls (snd (capture_samples forwardTransform plain_analyser [1, 0, - 1, 0])) =
     [([1, 0, - 1, 0], [0, 0, 0, 0])]"
  "js_get_cell (fdata (fst (capture_samples forwardTransform plain_analyser [1, 0, - 1, 0]))) 1 =
     Some (13421773 / 2 ^ 25)"
proof -
  have t: "fftSize plain_analyser \<le> fftCount plain_analyser + length [1, 0, - 1, 0 :: real]"
    by (simp add: plain_analyser_def)
  have w: "[1, 0, - 1, 0] =
      js_slice_neg (data (fst (capture_samples forwardTransform plain_analyser [1, 0, - 1, 0])))
        (fftSize plain_analyser)"
    by (simp add: capture_samples_data plain_analyser_def js_slice_neg_def)
  have z: "replicate (fftSize plain_analyser) (0 :: real) = [0, 0, 0, 0]"
    by (simp add: plain_analyser_def replicate_four)
  have f: "forwardTransform [1, 0, - 1, 0] (replicate (fftSize plain_analyser) 0) =
             Some ([0, 2, 0, 2], [0, 0, 0, 0])"
    by (simp add: z dft4)
  note sm = capture_trigger_summary [where f = forwardTransform, OF t w]
  show "Thrown \<notin> set (snd (capture_samples forwardTransform plain_analyser [1, 0, - 1, 0]))"
    using sm(4) [OF f] by simp
  show "fft_calls (snd (capture_samples forwardTransform plain_analyser [1, 0, - 1, 0])) =
     [([1, 0, - 1, 0], [0, 0, 0, 0])]"
    using sm(2) by (simp add: z)
  have "fdata (fst (capture_samples forwardTransform plain_analyser [1, 0, - 1, 0])) =
          smoothLoop (dbl (2 / 10)) 4 [0, 2, 0, 2] 0 [Some 0, Some 0, Some 0, Some 0]"
    using sm(4) [OF f] by (simp add: plain_analyser_def)
  then have "js_get_cell (fdata (fst (capture_samples forwardTransform plain_analyser [1, 0, - 1, 0]))) (int 1) =
          js_smooth (dbl (2 / 10)) 4 (Some 0) (Some 2)"
    by (simp only: smoothLoop_cell) (simp add: js_get_cell_def js_get_def)
  then have "js_get_cell (fdata (fst (capture_samples forwardTransform plain_analyser [1, 0, - 1, 0]))) (int 1) =
          Some (13421773 / 2 ^ 25)"
    by (simp only: smooth_default)
  then show "js_get_cell (fdata (fst (capture_samples forwardTransform plain_analyser [1, 0, - 1, 0]))) 1 =
     Some (13421773 / 2 ^ 25)"
    by simp
qed

lemma plain_capture:
  "capture decodeMonoFloat forwardTransform plain_analyser [1, 0, - 1, 0] =
     (fst (capture_samples forwardTransform plain_analyser [1, 0, - 1, 0]),
      snd (capture_samples forwardTransform plain_analyser [1, 0, - 1, 0]),
      [1, 0, - 1, 0])"
proof -
  have "channel plain_analyser = 0"
    by (simp add: plain_analyser_def)
  then show ?thesis
    by (simp add: capture_mono)
qed





section \<open>The throttle\<close>

text \<open>
  Claim C6, as amended. A capture call ends with an exception exactly when the
  decoder throws, or the transform runs and the transform library throws; it then signals
  no completion, and the counter of samples since the last yield keeps the value it had
  when the exception was thrown. Every other capture call signals completion exactly once.
  The signal is deferred to a later turn of the scheduler (\<^verbatim>\<open>setTimeout(cb)\<close>) if
  and only if \<open>throttle\<close> is truthy and the counter of samples since the last yield, the
  new samples included, divided by the sample rate is greater than \<open>throttle / 1000\<close>,
  both quotients being doubles; the counter is then replaced by its remainder modulo
  \<open>floor (sampleRate / throttle)\<close>. Otherwise the callback is called within the call and
  the counter keeps its value. The configuration is read from the analyser object as the
  decoder left it. The last part of the statement reads the comparison for a counter that
  is a number and a sample rate that is not zero.
\<close>

theorem capture_throttle:
  assumes cap: "capture decodeChannel fft self chunk = (self', evs, left)"
    and r: "r = decodeChannel chunk (channel self) self"
    and obj: "self0 = object_left r"
    and c: "c = (case samples r of
                   None \<Rightarrow> timeoutCount self0
                 | Some channelData \<Rightarrow> js_add (timeoutCount self0) (length channelData))"
    and due: "due = (throttle self0 \<noteq> 0 \<and>
                     js_gt (js_div c (sampleRate self0)) (dbl (real (throttle self0) / 1000)))"
  shows "(Thrown \<in> set evs \<longleftrightarrow>
            samples r = None \<or>
            (\<exists>channelData.
               samples r = Some channelData \<and>
               fftSize self0 \<le> fftCount self0 + length channelData \<and>
               fft (js_slice_neg (data self') (fftSize self0)) (replicate (fftSize self0) 0) = None)) \<and>
         (Thrown \<in> set evs \<longrightarrow> completions evs = [] \<and> timeoutCount self' = c) \<and>
         (Thrown \<notin> set evs \<longrightarrow>
            (due \<longrightarrow>
               completions evs = [SetTimeout_callback] \<and>
               timeoutCount self' =
                 js_mod c (nat \<lfloor>dbl (real (sampleRate self0) / real (throttle self0))\<rfloor>)) \<and>
            (\<not> due \<longrightarrow> completions evs = [Callback] \<and> timeoutCount self' = c)) \<and>
         (\<forall>m. c = Some m \<longrightarrow> 0 < sampleRate self0 \<longrightarrow>
            (due \<longleftrightarrow> throttle self0 \<noteq> 0 \<and>
                     dbl (real (throttle self0) / 1000) < dbl (real m / real (sampleRate self0))))"
proof -
  have plain: "\<forall>m. c = Some m \<longrightarrow> 0 < sampleRate self0 \<longrightarrow>
            (due \<longleftrightarrow> throttle self0 \<noteq> 0 \<and>
                     dbl (real (throttle self0) / 1000) < dbl (real m / real (sampleRate self0)))"
    by (simp add: due js_div_def js_gt_def)
  have main: "(Thrown \<in> set evs \<longleftrightarrow>
            samples r = None \<or>
            (\<exists>channelData.
               samples r = Some channelData \<and>
               fftSize self0 \<le> fftCount self0 + length channelData \<and>
               fft (js_slice_neg (data self') (fftSize self0)) (replicate (fftSize self0) 0) = None)) \<and>
         (Thrown \<in> set evs \<longrightarrow> completions evs = [] \<and> timeoutCount self' = c) \<and>
         (Thrown \<notin> set evs \<longrightarrow>
            (due \<longrightarrow>
               completions evs = [SetTimeout_callback] \<and>
               timeoutCount self' =
                 js_mod c (nat \<lfloor>dbl (real (sampleRate self0) / real (throttle self0))\<rfloor>)) \<and>
            (\<not> due \<longrightarrow> completions evs = [Callback] \<and> timeoutCount self' = c))"
  proof (cases "samples r")
    case None
    then have "capture decodeChannel fft self chunk = (self0, [Thrown], chunk_left r)"
      using capture_decoder_throws [where decodeChannel = decodeChannel and chunk = chunk
          and self = self and fft = fft]
      by (simp add: r obj)
    with cap have "self' = self0" and "evs = [Thrown]"
      by simp_all
    with None show ?thesis
      by (simp add: c completions_def)
  next
    case (Some cd)
    then have "capture decodeChannel fft self chunk =
                 (fst (capture_samples fft self0 cd), snd (capture_samples fft self0 cd), chunk_left r)"
      using capture_decoded [where decodeChannel = decodeChannel and chunk = chunk
          and self = self and fft = fft and cd = cd]
      by (simp add: r obj)
    with cap have s': "self' = fst (capture_samples fft self0 cd)"
      and e: "evs = snd (capture_samples fft self0 cd)"
      by simp_all
    have c': "c = js_add (timeoutCount self0) (length cd)"
      by (simp add: c Some)
    have w: "js_slice_neg (data self') (fftSize self0) =
               js_slice_neg (data (fst (capture_samples fft self0 cd))) (fftSize self0)"
      by (simp add: s')
    from capture_samples_completion [where f = fft, OF c' due w]
    show ?thesis
      by (simp add: Some s' [symmetric] e [symmetric])
  qed
  from main plain show ?thesis by blast
qed

lemma example_samples_deferred:
  "capture_samples forwardTransform example_analyser [7, 8] =
     (example_analyser\<lparr>data := [6, 7, 8], fdata := [Some (17 / 4), Some (3 / 4)],
        timeoutCount := Some 0, fftCount := 0\<rparr>,
      [Fft_call [7, 8] [0, 0], SetTimeout_callback])"
  by (simp add: capture_samples_def example_analyser_def js_slice_neg_def Let_def dft2 js_add_def
        replicate_two smoothLoop.simps js_get_cell_def js_get_def smooth_example
        throttle_step_def js_gt_def js_div_def js_mod_def
        dbl_twentieth dbl_three_fiftieths dbl_two)

lemma example_capture_deferred:
  "capture decodeMonoFloat forwardTransform example_analyser [7, 8] =
     (example_analyser\<lparr>data := [6, 7, 8], fdata := [Some (17 / 4), Some (3 / 4)],
        timeoutCount := Some 0, fftCount := 0\<rparr>,
      [Fft_call [7, 8] [0, 0], SetTimeout_callback], [7, 8])"
proof -
  have "channel example_analyser = 0"
    by (simp add: example_analyser_def)
  then show ?thesis
    by (simp add: capture_mono example_samples_deferred)
qed

text \<open>
  Claim C6 as stated fails for a call that ends with an exception: no completion is
  signalled, on either path. The analyser constructed with \<open>fftSize = 4\<close> and
  \<open>bufferSize = 2\<close> is given the four samples 1, 2, 3, 4. The throttle is \<open>50\<close> and the
  counter of samples since the last yield is \<open>4\<close> of \<open>44100\<close> a second, so the condition
  of the deferred path is false and the claim has the callback called within the call. The
  transform library throws, and the call has neither called the callback nor scheduled it.
\<close>

theorem capture_throttle_counterexample:
  "Analyser defaultFormat small_options = Some small_analyser \<and>
   snd (capture decodeMonoFloat forwardTransform small_analyser [1, 2, 3, 4]) =
     ([Fft_call [3, 4] [0, 0, 0, 0], Thrown], [1, 2, 3, 4]) \<and>
   throttle small_analyser = 50 \<and>
   sampleRate small_analyser = 44100 \<and>
   js_add (timeoutCount small_analyser) (length [1, 2, 3, 4 :: real]) = Some 4 \<and>
   timeoutCount (fst (capture decodeMonoFloat forwardTransform small_analyser [1, 2, 3, 4])) = Some 4 \<and>
   \<not> js_gt (js_div (Some 4) 44100) (dbl (real 50 / 1000)) \<and>
   \<not> (50 / 1000 < (4 / 44100 :: real)) \<and>
   completions [Fft_call [3, 4] [0, 0, 0, 0], Thrown] = [] \<and>
   Callback \<notin> set [Fft_call [3, 4] [0, 0, 0, 0], Thrown] \<and>
   SetTimeout_callback \<notin> set [Fft_call [3, 4] [0, 0, 0, 0], Thrown]"
proof -
  have a: "throttle small_analyser = 50" "sampleRate small_analyser = 44100"
    "js_add (timeoutCount small_analyser) (length [1, 2, 3, 4 :: real]) = Some 4"
    by (simp_all add: small_analyser_def js_add_def)
  have b: "\<not> js_gt (js_div (Some 4) 44100) (dbl (real 50 / 1000))"
    by (simp add: js_gt_def js_div_def dbl_twentieth dbl_small_quotient)
  have c: "completions [Fft_call [3, 4] [0, 0, 0, 0], Thrown] = []"
    by (simp add: completions_def)
  show ?thesis
    using a b c by (simp add: Analyser_small small_capture)
qed

theorem capture_throttle_witness:
  "capture decodeMonoFloat forwardTransform example_analyser [7, 8] =
     (example_analyser\<lparr>data := [6, 7, 8], fdata := [Some (17 / 4), Some (3 / 4)],
        timeoutCount := Some 0, fftCount := 0\<rparr>,
      [Fft_call [7, 8] [0, 0], SetTimeout_callback], [7, 8]) \<and>
   samples (decodeMonoFloat [7, 8] (channel example_analyser) example_analyser) = Some [7, 8] \<and>
   object_left (decodeMonoFloat [7, 8] (channel example_analyser) example_analyser) =
     example_analyser \<and>
   Thrown \<notin> set [Fft_call [7, 8] [0, 0], SetTimeout_callback] \<and>
   js_add (timeoutCount example_analyser) (length [7, 8 :: real]) = Some 6 \<and>
   throttle example_analyser \<noteq> 0 \<and>
   dbl (real (throttle example_analyser) / 1000) < dbl (real 6 / real (sampleRate example_analyser)) \<and>
   completions [Fft_call [7, 8] [0, 0], SetTimeout_callback] = [SetTimeout_callback] \<and>
   nat \<lfloor>dbl (real (sampleRate example_analyser) / real (throttle example_analyser))\<rfloor> = 2 \<and>
   Some 0 = js_mod (Some 6) 2"
proof -
  let ?s = "example_analyser\<lparr>data := [6, 7, 8], fdata := [Some (17 / 4), Some (3 / 4)],
        timeoutCount := Some 0, fftCount := 0\<rparr>"
  let ?evs = "[Fft_call [7, 8] [0, 0], SetTimeout_callback]"
  let ?r = "decodeMonoFloat [7, 8] (channel example_analyser) example_analyser"
  have dec: "samples ?r = Some [7, 8]" and obj: "example_analyser = object_left ?r"
    by (simp_all add: decodeMonoFloat_def example_analyser_def)
  have c: "Some 6 = (case samples ?r of
                   None \<Rightarrow> timeoutCount example_analyser
                 | Some channelData \<Rightarrow> js_add (timeoutCount example_analyser) (length channelData))"
    by (simp only: dec option.case) (simp add: js_add_def example_analyser_def)
  have due: "True = (throttle example_analyser \<noteq> 0 \<and>
      js_gt (js_div (Some 6) (sampleRate example_analyser))
        (dbl (real (throttle example_analyser) / 1000)))"
    by (simp add: js_gt_def js_div_def example_analyser_def
          dbl_twentieth dbl_three_fiftieths)
  note th = capture_throttle [OF example_capture_deferred refl obj c due]
  have nt: "Thrown \<notin> set ?evs" by simp
  note deferred = th [THEN conjunct2, THEN conjunct2, THEN conjunct1, THEN mp, OF nt,
      THEN conjunct1, THEN mp, OF TrueI]
  have sr: "0 < sampleRate example_analyser"
    by (simp add: example_analyser_def)
  note plain = th [THEN conjunct2, THEN conjunct2, THEN conjunct2, rule_format, OF refl sr]
  from plain have cond: "throttle example_analyser \<noteq> 0 \<and>
      dbl (real (throttle example_analyser) / 1000) < dbl (real 6 / real (sampleRate example_analyser))"
    by simp
  have q: "nat \<lfloor>dbl (real (sampleRate example_analyser) / real (throttle example_analyser))\<rfloor> = 2"
    by (simp add: example_analyser_def dbl_two)
  from deferred have
    "completions ?evs = [SetTimeout_callback]"
    "timeoutCount ?s =
       js_mod (Some 6) (nat \<lfloor>dbl (real (sampleRate example_analyser) / real (throttle example_analyser))\<rfloor>)"
    by simp_all
  then have "completions ?evs = [SetTimeout_callback]" "Some 0 = js_mod (Some 6) 2"
    by (simp_all only: q) simp_all
  moreover have "js_add (timeoutCount example_analyser) (length [7, 8 :: real]) = Some 6"
    by (simp add: js_add_def example_analyser_def)
  ultimately show ?thesis
    using cond nt example_capture_deferred dec obj [symmetric] q by blast
qed

section \<open>Sequences of capture calls\<close>

lemma run_Cons:
  "run decodeChannel fft self (chunk # chunks) =
     (fst (run decodeChannel fft (fst (capture decodeChannel fft self chunk)) chunks),
      fst (snd (capture decodeChannel fft self chunk)) @
      snd (run decodeChannel fft (fst (capture decodeChannel fft self chunk)) chunks))"
  by (simp add: case_prod_beta Let_def)

lemma fft_calls_append: "fft_calls (xs @ ys) = fft_calls xs @ fft_calls ys"
  by (induction xs rule: fft_calls.induct) simp_all

lemma js_slice_neg_idem: "js_slice_neg (js_slice_neg xs b) b = js_slice_neg xs b"
  by (simp add: js_slice_neg_def)

lemma keep_last_append:
  assumes "0 < b"
  shows "drop (length (drop (length xs - b) xs @ ys) - b) (drop (length xs - b) xs @ ys) =
         drop (length (xs @ ys) - b) (xs @ ys)"
proof (cases "length xs \<le> b")
  case True
  then show ?thesis by simp
next
  case False
  then have len: "length (drop (length xs - b) xs) = b" by simp
  show ?thesis
  proof (cases "b \<le> length ys")
    case True
    with False show ?thesis by (simp add: len)
  next
    case short: False
    with False have "length ys + (length xs - b) = length xs + length ys - b" by simp
    with False short show ?thesis by (simp add: len add.commute)
  qed
qed

lemma js_slice_neg_append:
  "js_slice_neg (js_slice_neg xs b @ ys) b = js_slice_neg (xs @ ys) b"
proof (cases "b = 0")
  case True
  then show ?thesis by (simp add: js_slice_neg_def)
next
  case False
  then have "0 < b" by simp
  from keep_last_append [OF this, of xs ys] False show ?thesis
    by (simp add: js_slice_neg_def)
qed

text \<open>
  The properties of the object are not read by the steps of a capture call: a change to
  them is carried through.
\<close>

lemma capture_samples_props:
  "capture_samples f (s\<lparr>props := p\<rparr>) cd =
     ((fst (capture_samples f s cd))\<lparr>props := p\<rparr>, snd (capture_samples f s cd))"
  by (simp add: capture_samples_def Let_def case_prod_beta throttle_step_def split: option.split)

text \<open>A capture call with a decoder that keeps the state of the analyser.\<close>

lemma capture_keeps_throw:
  assumes "keeps_state d" and "samples (d c (channel s) s) = None"
  shows "fst (capture d f s c) = s\<lparr>props := props (object_left (d c (channel s) s))\<rparr>"
    and "fst (snd (capture d f s c)) = [Thrown]"
proof -
  have o: "object_left (d c (channel s) s) = s\<lparr>props := props (object_left (d c (channel s) s))\<rparr>"
    using assms(1) by (simp only: keeps_state_def)
  from capture_decoder_throws [where decodeChannel = d and fft = f, OF assms(2)]
  have "fst (capture d f s c) = object_left (d c (channel s) s)"
    and e: "fst (snd (capture d f s c)) = [Thrown]"
    by simp_all
  with o show "fst (capture d f s c) = s\<lparr>props := props (object_left (d c (channel s) s))\<rparr>"
    by simp
  from e show "fst (snd (capture d f s c)) = [Thrown]" .
qed

lemma capture_keeps_samples:
  assumes "keeps_state d" and "samples (d c (channel s) s) = Some cd"
  shows "fst (capture d f s c) =
           (fst (capture_samples f s cd))\<lparr>props := props (object_left (d c (channel s) s))\<rparr>"
    and "fst (snd (capture d f s c)) = snd (capture_samples f s cd)"
proof -
  define p where "p = props (object_left (d c (channel s) s))"
  have o: "object_left (d c (channel s) s) = s\<lparr>props := p\<rparr>"
    using assms(1) unfolding p_def by (simp only: keeps_state_def)
  from capture_decoded [where decodeChannel = d and fft = f, OF assms(2)]
  have "fst (capture d f s c) = fst (capture_samples f (object_left (d c (channel s) s)) cd)"
    and "fst (snd (capture d f s c)) = snd (capture_samples f (object_left (d c (channel s) s)) cd)"
    by simp_all
  then have a: "fst (capture d f s c) = fst (capture_samples f (s\<lparr>props := p\<rparr>) cd)"
    and b: "fst (snd (capture d f s c)) = snd (capture_samples f (s\<lparr>props := p\<rparr>) cd)"
    by (simp_all only: o)
  show "fst (capture d f s c) =
           (fst (capture_samples f s cd))\<lparr>props := props (object_left (d c (channel s) s))\<rparr>"
    using a by (simp add: capture_samples_props p_def)
  show "fst (snd (capture d f s c)) = snd (capture_samples f s cd)"
    using b by (simp add: capture_samples_props)
qed

lemma capture_keeps_config:
  assumes "keeps_state d"
  shows "bufferSize (fst (capture d f s c)) = bufferSize s"
    and "channel (fst (capture d f s c)) = channel s"
    and "fftSize (fst (capture d f s c)) = fftSize s"
    and "smoothingTimeConstant (fst (capture d f s c)) = smoothingTimeConstant s"
proof -
  have "bufferSize (fst (capture d f s c)) = bufferSize s \<and>
        channel (fst (capture d f s c)) = channel s \<and>
        fftSize (fst (capture d f s c)) = fftSize s \<and>
        smoothingTimeConstant (fst (capture d f s c)) = smoothingTimeConstant s"
  proof (cases "samples (d c (channel s) s)")
    case None
    from capture_keeps_throw(1) [where f = f, OF assms None] show ?thesis by simp
  next
    case (Some cd)
    from capture_keeps_samples(1) [where f = f, OF assms Some] show ?thesis
      by (simp add: capture_samples_config)
  qed
  then show "bufferSize (fst (capture d f s c)) = bufferSize s"
    and "channel (fst (capture d f s c)) = channel s"
    and "fftSize (fst (capture d f s c)) = fftSize s"
    and "smoothingTimeConstant (fst (capture d f s c)) = smoothingTimeConstant s"
    by simp_all
qed

lemma capture_keeps_data:
  assumes "keeps_state d" and "js_slice_neg (data s) (bufferSize s) = data s"
  shows "data (fst (capture d f s c)) =
           js_slice_neg (data s @ samples_of (d c (channel s) s)) (bufferSize s)"
proof (cases "samples (d c (channel s) s)")
  case None
  from capture_keeps_throw(1) [where f = f, OF assms(1) None] assms(2) None show ?thesis
    by (simp add: samples_of_def)
next
  case (Some cd)
  from capture_keeps_samples(1) [where f = f, OF assms(1) Some] Some show ?thesis
    by (simp add: samples_of_def capture_samples_data)
qed

lemma run_keeps_config:
  assumes "keeps_state d"
  shows "bufferSize (fst (run d f s cs)) = bufferSize s \<and>
         channel (fst (run d f s cs)) = channel s \<and>
         fftSize (fst (run d f s cs)) = fftSize s \<and>
         smoothingTimeConstant (fst (run d f s cs)) = smoothingTimeConstant s"
proof (induction cs arbitrary: s)
  case Nil
  show ?case by simp
next
  case (Cons c cs)
  show ?case
    unfolding run_Cons fst_conv
    using Cons [of "fst (capture d f s c)"]
    by (simp add: capture_keeps_config [OF assms])
qed

text \<open>
  With such a decoder the buffer holds, after any sequence of capture calls, what
  \<^verbatim>\<open>slice(-bufferSize)\<close> leaves of all the samples: the most recent \<open>bufferSize\<close> of them
  for a buffer size that is not zero, and all of them for the buffer size \<open>0\<close>.
\<close>

lemma run_data:
  assumes "keeps_state d" and "js_slice_neg (data s) (bufferSize s) = data s"
  shows "data (fst (run d f s cs)) = js_slice_neg (data s @ run_samples d f s cs) (bufferSize s)"
  using assms(2)
proof (induction cs arbitrary: s)
  case Nil
  then show ?case by simp
next
  case (Cons c cs)
  let ?s = "fst (capture d f s c)"
  let ?cd = "samples_of (d c (channel s) s)"
  have dat: "data ?s = js_slice_neg (data s @ ?cd) (bufferSize s)"
    by (rule capture_keeps_data [OF assms(1) Cons.prems])
  have inv: "js_slice_neg (data ?s) (bufferSize ?s) = data ?s"
    by (simp add: dat capture_keeps_config [OF assms(1)] js_slice_neg_idem)
  have "data (fst (run d f s (c # cs))) = data (fst (run d f ?s cs))"
    by (simp only: run_Cons fst_conv)
  also have "\<dots> = js_slice_neg (data ?s @ run_samples d f ?s cs) (bufferSize s)"
    using Cons.IH [OF inv] by (simp add: capture_keeps_config [OF assms(1)])
  also have "\<dots> = js_slice_neg ((data s @ ?cd) @ run_samples d f ?s cs) (bufferSize s)"
    unfolding dat by (rule js_slice_neg_append)
  finally show ?case by simp
qed

lemma run_data_length:
  assumes "keeps_state d" and "js_slice_neg (data s) (bufferSize s) = data s"
    and "0 < bufferSize s"
  shows "length (data (fst (run d f s cs))) \<le> bufferSize s"
  using assms(3) by (simp add: run_data [OF assms(1,2)] js_slice_neg_def)

lemma run_data_zero:
  assumes "keeps_state d" and "bufferSize s = 0"
  shows "data (fst (run d f s cs)) = data s @ run_samples d f s cs"
proof -
  have "js_slice_neg (data s) (bufferSize s) = data s"
    using assms(2) by (simp add: js_slice_neg_def)
  from run_data [OF assms(1) this] assms(2) show ?thesis
    by (simp add: js_slice_neg_def)
qed

lemma keeps_state_decodeMonoFloat: "keeps_state decodeMonoFloat"
  by (simp add: keeps_state_def decodeMonoFloat_def)

section \<open>The time buffer\<close>

lemma Analyser_bufferSize_zero:
  "Analyser defaultFormat [''bufferSize'' \<mapsto> JNum 0] =
     Some \<lparr>props = extend (prototype defaultFormat) [''bufferSize'' \<mapsto> JNum 0] |` (- internal_keys),
           fftSize = 1024, smoothingTimeConstant = dbl (2 / 10), frequencyBinCount = 512,
           throttle = 50, bufferSize = 0, channel = 0, sampleRate = 44100,
           data = [], fdata = replicate 1024 (Some 0), timeoutCount = Some 0, fftCount = 0\<rparr>"
  by (simp add: Analyser_def Let_def extend_def prototype_def defaultFormat_def size_of_num
        num_of_def size_of_def)

text \<open>
  Claim C2 says that after every capture call the buffer is no longer than \<open>bufferSize\<close>
  and holds the most recent samples. The lemmas of the section above show this for every
  buffer size but \<open>0\<close>, and that at \<open>0\<close> the buffer keeps every sample (for a decoder
  that keeps the state of the analyser). For an analyser constructed
  with \<open>bufferSize = 0\<close> the cut of line 111 is \<^verbatim>\<open>slice(-0)\<close>, the whole array: after
  one chunk of two samples the buffer holds both.
\<close>

theorem time_buffer_unbounded_at_zero:
  "map_option
     (\<lambda>self. (bufferSize self, data (fst (capture decodeMonoFloat forwardTransform self [1, 2]))))
     (Analyser defaultFormat [''bufferSize'' \<mapsto> JNum 0]) = Some (0, [1, 2])"
  by (simp add: Analyser_bufferSize_zero capture_data js_slice_neg_def decodeMonoFloat_def)

section \<open>The frequency accessors\<close>

lemma freqLoop_closed:
  "i \<le> l \<Longrightarrow> l \<le> length arr \<Longrightarrow>
   freqLoop conv fd i l arr =
     take i arr @ map (\<lambda>j. conv (js_get_cell fd (int j))) [i..<l] @ drop l arr"
proof (induction conv fd i l arr rule: freqLoop.induct)
  case (1 conv fd i l arr)
  show ?case
  proof (cases "i < l")
    case True
    let ?v = "conv (js_get_cell fd (int i))"
    from True "1.prems" have set: "js_set arr i ?v = arr[i := ?v]"
      by (simp add: js_set_def)
    have "freqLoop conv fd i l arr = freqLoop conv fd (Suc i) l (arr[i := ?v])"
      using True by (subst freqLoop.simps) (simp add: set)
    also have "\<dots> = take (Suc i) (arr[i := ?v]) @
        map (\<lambda>j. conv (js_get_cell fd (int j))) [Suc i..<l] @ drop l (arr[i := ?v])"
      using "1.IH" [OF True] True "1.prems" by (simp add: set)
    also have "take (Suc i) (arr[i := ?v]) = take i arr @ [?v]"
      using True "1.prems" by (simp add: take_Suc_conv_app_nth)
    also have "drop l (arr[i := ?v]) = drop l arr"
      using True by simp
    finally show ?thesis
      using True by (simp add: upt_conv_Cons)
  next
    case False
    with "1.prems" show ?thesis
      by (subst freqLoop.simps) simp
  qed
qed

text \<open>
  Claim C9. \<^verbatim>\<open>getFloatFrequencyData\<close> and \<^verbatim>\<open>getByteFrequencyData\<close> return a missing
  destination as it is. For a destination \<open>a\<close> they write the cells \<open>0\<close> to
  \<open>min frequencyBinCount (length a) - 1\<close> and no other: the result has the length of \<open>a\<close>
  (a write at or past the length would have made it longer), and from index
  \<open>min frequencyBinCount (length a)\<close> on it is \<open>a\<close>.
\<close>

theorem frequency_data_within_bounds:
  "getFloatFrequencyData self None = None \<and>
   getByteFrequencyData convertSample self None = None \<and>
   getFloatFrequencyData self (Some a) =
     Some (map (\<lambda>i. js_get_cell (fdata self) (int i)) [0..<min (frequencyBinCount self) (length a)] @
           drop (min (frequencyBinCount self) (length a)) a) \<and>
   getByteFrequencyData convertSample self (Some b) =
     Some (map (\<lambda>i. Some (convertSample (js_get_cell (fdata self) (int i))))
             [0..<min (frequencyBinCount self) (length b)] @
           drop (min (frequencyBinCount self) (length b)) b) \<and>
   map_option length (getFloatFrequencyData self (Some a)) = Some (length a) \<and>
   map_option length (getByteFrequencyData convertSample self (Some b)) = Some (length b)"
  by (simp add: getFloatFrequencyData_def getByteFrequencyData_def freqLoop_closed)

section \<open>The time domain accessors\<close>

lemma timeLoop_closed:
  "i \<le> l \<Longrightarrow> c + nat (l - i) \<le> length arr \<Longrightarrow>
   timeLoop conv d c i l arr =
     take c arr @ map (\<lambda>j. conv (js_get d (i + int j))) [0..<nat (l - i)] @
     drop (c + nat (l - i)) arr"
proof (induction conv d c i l arr rule: timeLoop.induct)
  case (1 conv d c i l arr)
  show ?case
  proof (cases "i < l")
    case True
    let ?v = "conv (js_get d i)"
    define k where "k = nat (l - (i + 1))"
    from True have k: "nat (l - i) = Suc k" by (simp add: k_def)
    from True "1.prems" have c: "c < length arr" by simp
    then have set: "js_set arr c ?v = arr[c := ?v]"
      by (simp add: js_set_def)
    have "timeLoop conv d c i l arr = timeLoop conv d (Suc c) (i + 1) l (arr[c := ?v])"
      using True by (subst timeLoop.simps) (simp add: set)
    also have "\<dots> = take (Suc c) (arr[c := ?v]) @
        map (\<lambda>j. conv (js_get d (i + 1 + int j))) [0..<k] @ drop (Suc c + k) (arr[c := ?v])"
      using "1.IH" [OF True] True "1.prems" by (simp add: set k_def)
    also have "take (Suc c) (arr[c := ?v]) = take c arr @ [?v]"
      using c by (simp add: take_Suc_conv_app_nth)
    also have "drop (Suc c + k) (arr[c := ?v]) = drop (c + Suc k) arr"
      by simp
    also have "map (\<lambda>j. conv (js_get d (i + 1 + int j))) [0..<k] =
               map (\<lambda>j. conv (js_get d (i + int j))) [Suc 0..<Suc k]"
    proof -
      have "map (\<lambda>j. conv (js_get d (i + int j))) [Suc 0..<Suc k] =
            map (\<lambda>j. conv (js_get d (i + int j))) (map Suc [0..<k])"
        by (simp only: map_Suc_upt)
      also have "\<dots> = map (\<lambda>j. conv (js_get d (i + 1 + int j))) [0..<k]"
        by (simp add: comp_def add.assoc [symmetric])
      finally show ?thesis by simp
    qed
    finally have "timeLoop conv d c i l arr =
        (take c arr @ [?v]) @ map (\<lambda>j. conv (js_get d (i + int j))) [Suc 0..<Suc k] @
        drop (c + Suc k) arr" .
    moreover have "[0..<Suc k] = 0 # [Suc 0..<Suc k]"
      by (rule upt_conv_Cons) simp
    ultimately show ?thesis
      by (simp add: k del: upt_Suc)
  next
    case False
    with "1.prems" show ?thesis
      by (subst timeLoop.simps) simp
  qed
qed

lemma getFloatTimeDomainData_closed:
  "getFloatTimeDomainData self (Some a) =
     Some (map (\<lambda>j. js_get (data self) (int (length (data self)) - int (fftSize self) + int j))
             [0..<min (length a) (fftSize self)] @
           drop (min (length a) (fftSize self)) a)"
  by (simp add: getFloatTimeDomainData_def Let_def timeLoop_closed)

lemma getByteTimeDomainData_closed:
  "getByteTimeDomainData convertSample self (Some a) =
     Some (map (\<lambda>j. Some (convertSample
                 (js_get (data self) (int (length (data self)) - int (fftSize self) + int j))))
             [0..<min (length a) (fftSize self)] @
           drop (min (length a) (fftSize self)) a)"
  by (simp add: getByteTimeDomainData_def Let_def timeLoop_closed)

lemma js_get_window:
  assumes "n \<le> length d" and "j < n"
  shows "js_get d (int (length d) - int n + int j) = Some (drop (length d - n) d ! j)"
proof -
  have e: "int (length d) - int n + int j = int (length d - n + j)"
    using assms by linarith
  have lt: "length d - n + j < length d"
    using assms by linarith
  have "nat (int (length d - n + j)) = length d - n + j"
    by (rule nat_int)
  then have "js_get d (int (length d - n + j)) = Some (d ! (length d - n + j))"
    using lt unfolding js_get_def by (simp only: of_nat_0_le_iff of_nat_less_iff if_True simp_thms)
  then show ?thesis
    unfolding e using assms by simp
qed

lemma window_cells:
  assumes "n \<le> length d" and "m \<le> n"
  shows "map (\<lambda>j. f (js_get d (int (length d) - int n + int j))) [0..<m] =
         map (\<lambda>x. f (Some x)) (take m (drop (length d - n) d))"
proof (rule nth_equalityI)
  show "length (map (\<lambda>j. f (js_get d (int (length d) - int n + int j))) [0..<m]) =
        length (map (\<lambda>x. f (Some x)) (take m (drop (length d - n) d)))"
    using assms by simp
next
  fix j
  assume "j < length (map (\<lambda>j. f (js_get d (int (length d) - int n + int j))) [0..<m])"
  then have j: "j < m" by simp
  with assms have "j < n" by simp
  from js_get_window [OF assms(1) this] j assms
  show "map (\<lambda>j. f (js_get d (int (length d) - int n + int j))) [0..<m] ! j =
        map (\<lambda>x. f (Some x)) (take m (drop (length d - n) d)) ! j"
    by simp
qed

text \<open>
  Claim C3, as amended. \<^verbatim>\<open>getFloatTimeDomainData\<close> returns a missing destination as it
  is. For a destination \<open>a\<close> and a buffer that holds at least \<open>fftSize\<close> samples, it
  writes to the cells \<open>0\<close> to \<open>min (length a) fftSize - 1\<close> the first
  \<open>min (length a) fftSize\<close> samples of the window of the most recent \<open>fftSize\<close> samples
  (the oldest of the window first) and leaves the other cells. The newest sample of the
  buffer lands at the highest filled index when the destination has room for the whole
  window (\<open>fftSize \<le> length a\<close>). \<^verbatim>\<open>getByteTimeDomainData\<close> does the same with each
  sample quantised.
\<close>

theorem time_domain_data_window:
  assumes "fftSize self \<le> length (data self)"
  shows "getFloatTimeDomainData self None = None \<and>
         getByteTimeDomainData convertSample self None = None \<and>
         getFloatTimeDomainData self (Some a) =
           Some (map Some (take (min (length a) (fftSize self))
                            (drop (length (data self) - fftSize self) (data self))) @
                 drop (min (length a) (fftSize self)) a) \<and>
         getByteTimeDomainData convertSample self (Some b) =
           Some (map (\<lambda>x. Some (convertSample (Some x)))
                   (take (min (length b) (fftSize self))
                      (drop (length (data self) - fftSize self) (data self))) @
                 drop (min (length b) (fftSize self)) b) \<and>
         (fftSize self \<le> length a \<longrightarrow>
            getFloatTimeDomainData self (Some a) =
              Some (map Some (drop (length (data self) - fftSize self) (data self)) @
                    drop (fftSize self) a))"
proof -
  have f: "getFloatTimeDomainData self (Some a) =
           Some (map Some (take (min (length a) (fftSize self))
                            (drop (length (data self) - fftSize self) (data self))) @
                 drop (min (length a) (fftSize self)) a)"
    using window_cells [OF assms, of "min (length a) (fftSize self)" "\<lambda>x. x"]
    by (simp add: getFloatTimeDomainData_closed)
  have b: "getByteTimeDomainData convertSample self (Some b) =
           Some (map (\<lambda>x. Some (convertSample (Some x)))
                   (take (min (length b) (fftSize self))
                      (drop (length (data self) - fftSize self) (data self))) @
                 drop (min (length b) (fftSize self)) b)"
    using window_cells [OF assms, of "min (length b) (fftSize self)" "\<lambda>x. Some (convertSample x)"]
    by (simp add: getByteTimeDomainData_closed)
  have full: "getFloatTimeDomainData self (Some a) =
              Some (map Some (drop (length (data self) - fftSize self) (data self)) @
                    drop (fftSize self) a)" if "fftSize self \<le> length a"
    using that assms by (simp add: f min_absorb2)
  from f b full show ?thesis
    by (simp add: getFloatTimeDomainData_def getByteTimeDomainData_def)
qed

lemma Analyser_scenario: "Analyser defaultFormat scenario_options = Some scenario_analyser"
  by (simp add: Analyser_def Let_def extend_def prototype_def defaultFormat_def scenario_options_def
        scenario_analyser_def size_of_num num_of_def replicate_four)

text \<open>
  Claim C3 as stated fails for a destination shorter than the window. The analyser of the
  scenario (\<open>fftSize = 4\<close>) has captured the samples 1, 2, 3, 4; a destination of two
  cells receives 1 and 2, the oldest of the window, where the claim has the most recent
  two, 3 and 4.
\<close>

theorem time_domain_data_counterexample:
  "Analyser defaultFormat scenario_options = Some scenario_analyser \<and>
   data (fst (capture decodeMonoFloat forwardTransform scenario_analyser [1, 2, 3, 4])) = [1, 2, 3, 4] \<and>
   fftSize (fst (capture decodeMonoFloat forwardTransform scenario_analyser [1, 2, 3, 4])) = 4 \<and>
   getFloatTimeDomainData
     (fst (capture decodeMonoFloat forwardTransform scenario_analyser [1, 2, 3, 4]))
     (Some [None, None]) = Some [Some 1, Some 2] \<and>
   map Some (drop (length [1, 2, 3, 4 :: real] - min (length [None, None :: cell]) 4) [1, 2, 3, 4 :: real]) =
     [Some 3, Some 4]"
proof -
  let ?s = "fst (capture decodeMonoFloat forwardTransform scenario_analyser [1, 2, 3, 4])"
  have d: "data ?s = [1, 2, 3, 4]"
    by (simp add: capture_data scenario_analyser_def decodeMonoFloat_def js_slice_neg_def)
  have n: "fftSize ?s = 4"
    by (simp add: capture_config scenario_analyser_def)
  have "getFloatTimeDomainData ?s (Some [None, None]) = Some [Some 1, Some 2]"
    by (simp add: getFloatTimeDomainData_closed d n js_get_def upt_rec)
  with d n Analyser_scenario show ?thesis by simp
qed

theorem time_domain_data_window_witness:
  "fftSize example_analyser \<le> length (data example_analyser) \<and>
   getFloatTimeDomainData example_analyser (Some [None]) = Some [Some 5] \<and>
   getFloatTimeDomainData example_analyser (Some [None, None, None]) = Some [Some 5, Some 6, None] \<and>
   getByteTimeDomainData (\<lambda>x. x) example_analyser (Some [None, None, Some (Some 9)]) =
     Some [Some (Some 5), Some (Some 6), Some (Some 9)]"
proof -
  have h: "fftSize example_analyser \<le> length (data example_analyser)"
    by (simp add: example_analyser_def)
  from time_domain_data_window [OF h, of "\<lambda>x. x" "[None]" "[None, None, Some (Some 9)]"]
    time_domain_data_window [OF h, of "\<lambda>x. x" "[None, None, None]" "[]"] h
  show ?thesis
    by (simp add: example_analyser_def)
qed

section \<open>The accessors that allocate their result\<close>

lemma js_get_cell_nth: "j < length fd \<Longrightarrow> js_get_cell fd (int j) = fd ! j"
  by (simp add: js_get_cell_def js_get_def)

lemma pushLoop_closed:
  "i \<le> n \<Longrightarrow> n \<le> length fd \<Longrightarrow>
   pushLoop fd i n result = result @ take (n - i) (drop i fd)"
proof (induction fd i n result rule: pushLoop.induct)
  case (1 fd i n result)
  show ?case
  proof (cases "i < n")
    case True
    with "1.prems" have i: "i < length fd" by simp
    from True have "n - i = Suc (n - Suc i)" by simp
    moreover have "drop i fd = fd ! i # drop (Suc i) fd"
      using i by (simp add: Cons_nth_drop_Suc)
    moreover have "pushLoop fd i n result =
        (result @ [fd ! i]) @ take (n - Suc i) (drop (Suc i) fd)"
      using "1.IH" [OF True] True "1.prems" i
      by (subst pushLoop.simps) (simp add: js_get_cell_nth)
    ultimately show ?thesis by simp
  next
    case False
    with "1.prems" show ?thesis
      by (subst pushLoop.simps) simp
  qed
qed

text \<open>
  Claim C8, as amended. The requested size \<open>n\<close> is the size argument when it is given and
  not \<open>0\<close>, and \<open>fftSize\<close> when it is left out or \<open>0\<close> (\<^verbatim>\<open>size || this.fftSize\<close>).
  \<^verbatim>\<open>getFrequencyData\<close> returns the first \<open>min n (length spectrum)\<close> values of the
  spectrum, and \<^verbatim>\<open>getTimeData\<close>, for a requested size of at least \<open>1\<close>, the last
  \<open>min n (length buffer)\<close> samples of the buffer.
\<close>

theorem sized_accessors:
  assumes "n = (case sz of None \<Rightarrow> fftSize self | Some k \<Rightarrow> if k = 0 then fftSize self else k)"
  shows "getFrequencyData self sz = take (min n (length (fdata self))) (fdata self) \<and>
         length (getFrequencyData self sz) = min n (length (fdata self)) \<and>
         (0 < n \<longrightarrow>
            getTimeData self sz =
              drop (length (data self) - min n (length (data self))) (data self) \<and>
            length (getTimeData self sz) = min n (length (data self)))"
proof -
  have n: "js_or sz (fftSize self) = n"
    by (simp add: assms js_or_def)
  have f: "getFrequencyData self sz = take (min n (length (fdata self))) (fdata self)"
    by (simp add: getFrequencyData_def Let_def n pushLoop_closed)
  have t: "getTimeData self sz =
             drop (length (data self) - min n (length (data self))) (data self)" if "0 < n"
    using that by (cases "data self = []") (simp_all add: getTimeData_def Let_def n js_slice_neg_def)
  from f t show ?thesis by simp
qed

theorem sized_accessors_witness:
  "1 = (case Some 1 of None \<Rightarrow> fftSize example_analyser
        | Some k \<Rightarrow> if k = 0 then fftSize example_analyser else k) \<and>
   getFrequencyData example_analyser (Some 1) = [Some 1] \<and>
   getTimeData example_analyser (Some 1) = [6] \<and>
   getFrequencyData example_analyser None = [Some 1, Some 2] \<and>
   getTimeData example_analyser None = [5, 6]"
proof -
  have a: "1 = (case Some 1 of None \<Rightarrow> fftSize example_analyser
        | Some k \<Rightarrow> if k = 0 then fftSize example_analyser else k)"
    by simp
  have b: "2 = (case None of None \<Rightarrow> fftSize example_analyser
        | Some k \<Rightarrow> if k = 0 then fftSize example_analyser else k)"
    by (simp add: example_analyser_def)
  from sized_accessors [OF a] sized_accessors [OF b] a
  show ?thesis
    by (simp add: example_analyser_def)
qed

text \<open>
  Claim C8 as stated fails at the size argument \<open>0\<close>, where it has \<open>min 0 available = 0\<close>
  values: the fresh analyser of the scenario returns its four spectrum values, and after
  the capture of 1, 2, 3, 4 its four buffered samples.
\<close>

theorem sized_accessors_counterexample:
  "Analyser defaultFormat scenario_options = Some scenario_analyser \<and>
   getFrequencyData scenario_analyser (Some 0) = [Some 0, Some 0, Some 0, Some 0] \<and>
   min 0 (length (fdata scenario_analyser)) = 0 \<and>
   getTimeData (fst (capture decodeMonoFloat forwardTransform scenario_analyser [1, 2, 3, 4])) (Some 0) =
     [1, 2, 3, 4] \<and>
   min 0 (length (data (fst (capture decodeMonoFloat forwardTransform scenario_analyser [1, 2, 3, 4])))) = 0"
proof -
  let ?s = "fst (capture decodeMonoFloat forwardTransform scenario_analyser [1, 2, 3, 4])"
  have d: "data ?s = [1, 2, 3, 4]"
    by (simp add: capture_data scenario_analyser_def decodeMonoFloat_def js_slice_neg_def)
  have n: "fftSize ?s = 4"
    by (simp add: capture_config scenario_analyser_def)
  have t: "getTimeData ?s (Some 0) = [1, 2, 3, 4]"
    by (simp add: getTimeData_def Let_def js_or_def d n js_slice_neg_def)
  have f: "getFrequencyData scenario_analyser (Some 0) = [Some 0, Some 0, Some 0, Some 0]"
    by (simp add: getFrequencyData_def Let_def js_or_def pushLoop_closed scenario_analyser_def)
  from t f Analyser_scenario show ?thesis by simp
qed

section \<open>The constructor\<close>

lemma Analyser_fields:
  assumes "Analyser fmt options = Some a"
  shows "size_of (extend (prototype fmt) options ''fftSize'') = Some (fftSize a)"
    and "num_of (extend (prototype fmt) options ''smoothingTimeConstant'') = Some (smoothingTimeConstant a)"
    and "size_of (extend (prototype fmt) options ''frequencyBinCount'') = Some (frequencyBinCount a)"
    and "size_of (extend (prototype fmt) options ''throttle'') = Some (throttle a)"
    and "size_of (extend (prototype fmt) options ''bufferSize'') = Some (bufferSize a)"
    and "size_of (extend (prototype fmt) options ''channel'') = Some (channel a)"
    and "size_of (extend (prototype fmt) options ''sampleRate'') = Some (sampleRate a)"
    and "props a = extend (prototype fmt) options |` (- internal_keys)"
    and "data a = []"
    and "fdata a = replicate (fftSize a) (Some 0)"
    and "timeoutCount a = Some 0"
    and "fftCount a = 0"
  using assms by (auto simp: Analyser_def Let_def split: option.splits)

lemma extend_apply: "extend target source k = (case source k of None \<Rightarrow> target k | Some v \<Rightarrow> Some v)"
  by (simp add: extend_def map_add_def)

lemma prototype_defaults:
  "prototype fmt ''fftSize'' = Some (JNum 1024)"
  "prototype fmt ''smoothingTimeConstant'' = Some (JNum (dbl (2 / 10)))"
  "prototype fmt ''frequencyBinCount'' = Some (JNum 512)"
  "prototype fmt ''throttle'' = Some (JNum 50)"
  "prototype fmt ''bufferSize'' = Some (JNum 44100)"
  "prototype fmt ''channel'' = Some (JNum 0)"
  by (simp_all add: prototype_def)

text \<open>
  Claim C4, as amended. An analyser constructed without a \<open>frequencyBinCount\<close> option
  has \<open>frequencyBinCount = 512\<close>, the prototype's \<^verbatim>\<open>1024/2\<close>, whatever its \<open>fftSize\<close>
  option: that is \<open>fftSize / 2\<close> exactly when \<open>fftSize\<close> is \<open>1024\<close>, as it is without an
  \<open>fftSize\<close> option.
\<close>

theorem frequencyBinCount_default:
  assumes "Analyser fmt options = Some a"
    and "options ''frequencyBinCount'' = None"
  shows "frequencyBinCount a = 512 \<and>
         (options ''fftSize'' = None \<longrightarrow> fftSize a = 1024) \<and>
         (real (frequencyBinCount a) = real (fftSize a) / 2 \<longleftrightarrow> fftSize a = 1024)"
proof -
  have b: "frequencyBinCount a = 512"
    using Analyser_fields(3) [OF assms(1)] assms(2)
    by (simp add: extend_apply prototype_defaults size_of_num)
  have n: "fftSize a = 1024" if "options ''fftSize'' = None"
    using Analyser_fields(1) [OF assms(1)] that
    by (simp add: extend_apply prototype_defaults size_of_num)
  have "real (fftSize a) = 1024 \<longleftrightarrow> fftSize a = 1024"
    by (metis of_nat_eq_iff of_nat_numeral)
  with b n show ?thesis by auto
qed

theorem frequencyBinCount_default_witness:
  "Analyser defaultFormat scenario_options = Some scenario_analyser \<and>
   scenario_options ''frequencyBinCount'' = None \<and>
   frequencyBinCount scenario_analyser = 512"
proof -
  have n: "scenario_options ''frequencyBinCount'' = None"
    by (simp add: scenario_options_def)
  from frequencyBinCount_default [OF Analyser_scenario n] n Analyser_scenario
  show ?thesis by simp
qed

text \<open>
  Claim C4 as stated fails for the analyser of the scenario: its options have
  \<open>fftSize = 4\<close> and no \<open>frequencyBinCount\<close>, and its \<open>frequencyBinCount\<close> is \<open>512\<close>,
  not \<open>2\<close>.
\<close>

theorem frequencyBinCount_counterexample:
  "Analyser defaultFormat scenario_options = Some scenario_analyser \<and>
   scenario_options ''fftSize'' = Some (JNum 4) \<and>
   scenario_options ''frequencyBinCount'' = None \<and>
   fftSize scenario_analyser = 4 \<and>
   frequencyBinCount scenario_analyser = 512 \<and>
   real (frequencyBinCount scenario_analyser) \<noteq> real (fftSize scenario_analyser) / 2"
  using Analyser_scenario by (simp add: scenario_options_def scenario_analyser_def)

section \<open>Option keys\<close>

lemma extend_unread:
  "q \<noteq> k \<Longrightarrow> extend target (options(k \<mapsto> v)) q = extend target options q"
  by (simp add: extend_apply)

lemma props_with_key:
  "extend target (options(k \<mapsto> v)) |` (- internal_keys) =
     (extend target options |` (- internal_keys))(k := if k \<in> internal_keys then None else Some v)"
  by (rule ext) (simp add: restrict_map_def extend_apply)

text \<open>
  Claim C5, as amended. The constructor copies every key of the options onto the analyser
  object; none is ignored but the four that it overwrites afterwards (\<^verbatim>\<open>_data\<close>,
  \<^verbatim>\<open>_fdata\<close>, \<^verbatim>\<open>_timeoutCount\<close>, \<^verbatim>\<open>_fftCount\<close>). A key that is not one of the
  seven properties the analyser's code reads leaves the analyser as it is without the
  key (the configuration values, the empty buffer, the zeroed spectrum, the counters),
  but for the key itself, which is a property of the object.
\<close>

theorem option_keys_are_copied:
  assumes "k \<notin> read_keys"
  shows "Analyser fmt (options(k \<mapsto> v)) =
           map_option
             (\<lambda>a. a\<lparr>props := (props a)(k := if k \<in> internal_keys then None else Some v)\<rparr>)
             (Analyser fmt options)"
proof -
  from assms have ne: "''fftSize'' \<noteq> k" "''smoothingTimeConstant'' \<noteq> k"
    "''frequencyBinCount'' \<noteq> k" "''throttle'' \<noteq> k" "''bufferSize'' \<noteq> k"
    "''channel'' \<noteq> k" "''sampleRate'' \<noteq> k"
    by (auto simp: read_keys_def)
  show ?thesis
    unfolding Analyser_def Let_def
    by (simp only: extend_unread [OF ne(1)] extend_unread [OF ne(2)] extend_unread [OF ne(3)]
          extend_unread [OF ne(4)] extend_unread [OF ne(5)] extend_unread [OF ne(6)]
          extend_unread [OF ne(7)] props_with_key)
       (simp split: option.split)
qed

theorem option_keys_are_copied_witness:
  "''foo'' \<notin> read_keys \<and>
   Analyser defaultFormat (scenario_options(''foo'' \<mapsto> JNum 1)) =
     Some (scenario_analyser\<lparr>props := (props scenario_analyser)(''foo'' \<mapsto> JNum 1)\<rparr>)"
proof -
  have h: "''foo'' \<notin> read_keys"
    by (simp add: read_keys_def)
  have i: "''foo'' \<notin> internal_keys"
    by (simp add: internal_keys_def)
  from option_keys_are_copied [OF h, of defaultFormat scenario_options "JNum 1"] h i
  show ?thesis
    by (simp add: Analyser_scenario)
qed

lemma Analyser_scenario_bins:
  "Analyser defaultFormat (scenario_options(''frequencyBinCount'' \<mapsto> JNum 1)) =
     Some (scenario_analyser
             \<lparr>props := (props scenario_analyser)(''frequencyBinCount'' \<mapsto> JNum 1),
              frequencyBinCount := 1\<rparr>)"
proof -
  have i: "''frequencyBinCount'' \<notin> internal_keys"
    by (simp add: internal_keys_def)
  have p: "extend (prototype defaultFormat) (scenario_options(''frequencyBinCount'' \<mapsto> JNum 1)) |`
             (- internal_keys) =
           (props scenario_analyser)(''frequencyBinCount'' \<mapsto> JNum 1)"
    using i by (simp add: props_with_key scenario_analyser_def)
  show ?thesis
    unfolding Analyser_def Let_def p
    by (simp add: extend_apply prototype_def defaultFormat_def scenario_options_def
          scenario_analyser_def size_of_num num_of_def replicate_four)
qed

text \<open>
  Claim C5 as stated fails. \<open>frequencyBinCount\<close> is not among the keys the specification
  lists as recognised, and an analyser constructed with it fills one cell of a destination
  of two where the analyser constructed without it fills both. A key that no code reads,
  \<open>foo\<close>, is not ignored either: it is a property of the analyser constructed with it.
\<close>

theorem option_keys_counterexample:
  "''frequencyBinCount'' \<notin> recognized_keys \<and>
   Analyser defaultFormat scenario_options = Some scenario_analyser \<and>
   Analyser defaultFormat (scenario_options(''frequencyBinCount'' \<mapsto> JNum 1)) =
     Some (scenario_analyser
             \<lparr>props := (props scenario_analyser)(''frequencyBinCount'' \<mapsto> JNum 1),
              frequencyBinCount := 1\<rparr>) \<and>
   getFloatFrequencyData scenario_analyser (Some [None, None]) = Some [Some 0, Some 0] \<and>
   getFloatFrequencyData
     (scenario_analyser
        \<lparr>props := (props scenario_analyser)(''frequencyBinCount'' \<mapsto> JNum 1),
         frequencyBinCount := 1\<rparr>)
     (Some [None, None]) = Some [Some 0, None] \<and>
   ''foo'' \<notin> recognized_keys \<and>
   props scenario_analyser ''foo'' = None \<and>
   map_option (\<lambda>a. props a ''foo'') (Analyser defaultFormat (scenario_options(''foo'' \<mapsto> JNum 1))) =
     Some (Some (JNum 1))"
proof -
  have a: "getFloatFrequencyData scenario_analyser (Some [None, None]) = Some [Some 0, Some 0]"
    by (simp add: getFloatFrequencyData_def freqLoop_closed scenario_analyser_def
          js_get_cell_def js_get_def upt_rec)
  have b: "getFloatFrequencyData
     (scenario_analyser
        \<lparr>props := (props scenario_analyser)(''frequencyBinCount'' \<mapsto> JNum 1),
         frequencyBinCount := 1\<rparr>)
     (Some [None, None]) = Some [Some 0, None]"
    by (simp add: getFloatFrequencyData_def freqLoop_closed scenario_analyser_def
          js_get_cell_def js_get_def upt_rec)
  have c: "props scenario_analyser ''foo'' = None"
    by (simp add: scenario_analyser_def restrict_map_def extend_apply prototype_def
          defaultFormat_def scenario_options_def)
  have i: "''foo'' \<notin> internal_keys"
    by (simp add: internal_keys_def)
  have p: "extend (prototype defaultFormat) (scenario_options(''foo'' \<mapsto> JNum 1)) |`
             (- internal_keys) = (props scenario_analyser)(''foo'' \<mapsto> JNum 1)"
    using i by (simp add: props_with_key scenario_analyser_def)
  have "Analyser defaultFormat (scenario_options(''foo'' \<mapsto> JNum 1)) =
          Some (scenario_analyser\<lparr>props := (props scenario_analyser)(''foo'' \<mapsto> JNum 1)\<rparr>)"
    unfolding Analyser_def Let_def p
    by (simp add: extend_apply prototype_def defaultFormat_def scenario_options_def
          scenario_analyser_def size_of_num num_of_def replicate_four)
  then have d: "map_option (\<lambda>a. props a ''foo'')
             (Analyser defaultFormat (scenario_options(''foo'' \<mapsto> JNum 1))) = Some (Some (JNum 1))"
    by simp
  from a b c d Analyser_scenario Analyser_scenario_bins show ?thesis
    by (simp add: recognized_keys_def)
qed

section \<open>The first window\<close>

text \<open>
  While the counter is below the window and no sample arrives, no transform runs and the
  buffer, the spectrum and the counter stay as they are.
\<close>

lemma capture_keeps_idle:
  assumes "keeps_state d"
    and "fftCount s < fftSize s"
    and "samples_of (d c (channel s) s) = []"
    and "js_slice_neg (data s) (bufferSize s) = data s"
  shows "fftCount (fst (capture d f s c)) = fftCount s \<and>
         fdata (fst (capture d f s c)) = fdata s \<and>
         data (fst (capture d f s c)) = data s \<and>
         fft_calls (fst (snd (capture d f s c))) = []"
proof (cases "samples (d c (channel s) s)")
  case None
  from capture_keeps_throw [where f = f, OF assms(1) None] show ?thesis
    by simp
next
  case (Some cd)
  with assms(3) have cd: "cd = []"
    by (simp add: samples_of_def)
  have q: "\<not> fftSize s \<le> fftCount s + length cd"
    using assms(2) by (simp add: cd)
  from capture_keeps_samples [where f = f, OF assms(1) Some]
    capture_quiet_summary [where f = f, OF q] assms(4)
  show ?thesis
    by (simp add: capture_samples_data cd)
qed

lemma run_idle:
  assumes "keeps_state d"
    and "fftCount s < fftSize s"
    and "run_samples d f s cs = []"
    and "js_slice_neg (data s) (bufferSize s) = data s"
  shows "fftCount (fst (run d f s cs)) = fftCount s \<and>
         fdata (fst (run d f s cs)) = fdata s \<and>
         data (fst (run d f s cs)) = data s \<and>
         fft_calls (snd (run d f s cs)) = []"
  using assms(2-4)
proof (induction cs arbitrary: s)
  case Nil
  show ?case by simp
next
  case (Cons c cs)
  let ?s = "fst (capture d f s c)"
  from Cons.prems(2) have e: "samples_of (d c (channel s) s) = []"
    and rest: "run_samples d f ?s cs = []"
    by simp_all
  note one = capture_keeps_idle [where f = f, OF assms(1) Cons.prems(1) e Cons.prems(3)]
  have a: "fftCount ?s < fftSize ?s"
    using Cons.prems(1) one by (simp add: capture_keeps_config [OF assms(1)])
  have c: "js_slice_neg (data ?s) (bufferSize ?s) = data ?s"
    using Cons.prems(3) one by (simp add: capture_keeps_config [OF assms(1)])
  from Cons.IH [OF a rest c] one
  show ?case
    by (simp only: run_Cons fst_conv snd_conv) (simp add: fft_calls_append)
qed

text \<open>
  From a counter below the window, chunks whose samples bring it to the window exactly:
  the transform runs once, on the window of the last buffer.
\<close>

lemma run_first_window:
  assumes "keeps_state d"
    and "fftCount s < fftSize s"
    and "fftCount s + length (run_samples d f s cs) = fftSize s"
    and "js_slice_neg (data s) (bufferSize s) = data s"
    and "w = js_slice_neg (data (fst (run d f s cs))) (fftSize s)"
  shows "fft_calls (snd (run d f s cs)) = [(w, replicate (fftSize s) 0)] \<and>
         (f w (replicate (fftSize s) 0) = None \<longrightarrow>
            fdata (fst (run d f s cs)) = fdata s \<and> Thrown \<in> set (snd (run d f s cs))) \<and>
         (\<forall>re im. f w (replicate (fftSize s) 0) = Some (re, im) \<longrightarrow>
            fdata (fst (run d f s cs)) =
              smoothLoop (smoothingTimeConstant s) (fftSize s) re 0 (fdata s))"
  using assms(2-5)
proof (induction cs arbitrary: s)
  case Nil
  then show ?case by simp
next
  case (Cons c cs)
  let ?s = "fst (capture d f s c)"
  let ?cd = "samples_of (d c (channel s) s)"
  note cfg = capture_keeps_config [where f = f and s = s and c = c, OF assms(1)]
  from Cons.prems(2) have total: "fftCount s + length ?cd + length (run_samples d f ?s cs) = fftSize s"
    by simp
  have w: "w = js_slice_neg (data (fst (run d f ?s cs))) (fftSize ?s)"
    using Cons.prems(4) by (simp only: run_Cons fst_conv cfg)
  have dat: "data ?s = js_slice_neg (data s @ ?cd) (bufferSize s)"
    by (rule capture_keeps_data [OF assms(1) Cons.prems(3)])
  have inv: "js_slice_neg (data ?s) (bufferSize ?s) = data ?s"
    by (simp add: dat cfg js_slice_neg_idem)
  show ?case
  proof (cases "fftSize s \<le> fftCount s + length ?cd")
    case False
    have one: "fftCount ?s = fftCount s + length ?cd \<and> fdata ?s = fdata s \<and>
               fft_calls (fst (snd (capture d f s c))) = []"
    proof (cases "samples (d c (channel s) s)")
      case None
      from capture_keeps_throw [where f = f, OF assms(1) None] None show ?thesis
        by (simp add: samples_of_def)
    next
      case (Some cd)
      then have cd: "?cd = cd"
        by (simp add: samples_of_def)
      have q: "\<not> fftSize s \<le> fftCount s + length cd"
        using False by (simp add: cd)
      from capture_keeps_samples [where f = f, OF assms(1) Some]
        capture_quiet_summary [where f = f, OF q]
      show ?thesis
        by (simp add: cd)
    qed
    have a: "fftCount ?s < fftSize ?s"
      using False one by (simp add: cfg)
    have b: "fftCount ?s + length (run_samples d f ?s cs) = fftSize ?s"
      using total one by (simp add: cfg)
    from Cons.IH [OF a b inv w] one
    show ?thesis
      by (simp only: run_Cons fst_conv snd_conv) (simp add: fft_calls_append cfg)
  next
    case True
    with total have "length (run_samples d f ?s cs) = 0" by linarith
    then have rest: "run_samples d f ?s cs = []" by (simp only: length_0_conv)
    from True Cons.prems(1) have "?cd \<noteq> []"
      by auto
    then obtain cd where Some: "samples (d c (channel s) s) = Some cd"
      by (cases "samples (d c (channel s) s)") (simp_all add: samples_of_def)
    then have cd: "?cd = cd"
      by (simp add: samples_of_def)
    have t: "fftSize s \<le> fftCount s + length cd"
      using True by (simp add: cd)
    define w1 where "w1 = js_slice_neg (data (fst (capture_samples f s cd))) (fftSize s)"
    note ks = capture_keeps_samples [where f = f, OF assms(1) Some]
    note trig = capture_trigger_summary [where f = f, OF t w1_def]
    have a: "fftCount ?s < fftSize ?s"
      using Cons.prems(1) trig(1) ks(1) by (simp add: capture_samples_config)
    note idle = run_idle [where f = f, OF assms(1) a rest inv]
    have ww: "w = w1"
      using w idle ks(1) by (simp add: w1_def cfg capture_samples_config)
    have calls: "fft_calls (snd (run d f s (c # cs))) = [(w, replicate (fftSize s) 0)]"
      using trig(2) idle ks(2)
      by (simp only: run_Cons snd_conv) (simp add: fft_calls_append ww capture_samples_config)
    have none: "fdata (fst (run d f s (c # cs))) = fdata s \<and> Thrown \<in> set (snd (run d f s (c # cs)))"
      if "f w (replicate (fftSize s) 0) = None"
      using trig(3) that idle ks by (simp only: run_Cons fst_conv snd_conv) (simp add: ww capture_samples_config)
    have some: "fdata (fst (run d f s (c # cs))) =
              smoothLoop (smoothingTimeConstant s) (fftSize s) re 0 (fdata s)"
      if "f w (replicate (fftSize s) 0) = Some (re, im)" for re im
      using trig(4) [of re im] that idle ks by (simp only: run_Cons fst_conv snd_conv) (simp add: ww capture_samples_config)
    from calls none some show ?thesis by blast
  qed
qed

lemma scenario_samples:
  "capture_samples forwardTransform scenario_analyser [1, 0, - 1, 0] =
     (scenario_analyser\<lparr>data := [1, 0, - 1, 0],
        fdata := [Some 0, Some (1 / 2), Some 0, Some (1 / 2)],
        timeoutCount := Some 4, fftCount := 0\<rparr>,
      [Fft_call [1, 0, - 1, 0] [0, 0, 0, 0], Callback])"
  by (simp add: capture_samples_def scenario_analyser_def js_slice_neg_def Let_def dft4
        js_add_def replicate_four smoothLoop.simps js_get_cell_def js_get_def smooth_scenario
        throttle_step_def js_gt_def js_div_def dbl_twentieth dbl_small_quotient)

lemma scenario_capture:
  "capture decodeMonoFloat forwardTransform scenario_analyser [1, 0, - 1, 0] =
     (scenario_analyser\<lparr>data := [1, 0, - 1, 0],
        fdata := [Some 0, Some (1 / 2), Some 0, Some (1 / 2)],
        timeoutCount := Some 4, fftCount := 0\<rparr>,
      [Fft_call [1, 0, - 1, 0] [0, 0, 0, 0], Callback], [1, 0, - 1, 0])"
proof -
  have "channel scenario_analyser = 0"
    by (simp add: scenario_analyser_def)
  then show ?thesis
    by (simp add: capture_mono scenario_samples)
qed

text \<open>
  Claim C7, as amended. A freshly constructed analyser with a window of at least
  one sample is given chunks that decode to exactly \<open>fftSize\<close> samples in all, by a
  decoder that leaves the state of the analyser as it is. The buffer then holds what
  \<^verbatim>\<open>slice(-bufferSize)\<close> leaves of the samples, and the transform library has been
  called exactly once, on the most recent \<open>fftSize\<close> samples of the buffer and \<open>fftSize\<close>
  zeros. When the library threw, the spectrum is still zero. When it returned and \<open>re\<close> is
  the real part it left, every bin \<open>i\<close> of the spectrum is the single precision rounding
  of \<open>k * 0 + (1 - k) * re i / fftSize\<close>, each operation of which is rounded to a double.
  In the scenario of the specification, with the transform and the decoder as the
  specification describes them: the analyser constructed with \<open>fftSize = 4\<close>,
  \<open>smoothingTimeConstant = 0\<close> and \<open>channel = 0\<close> captures the mono float chunk
  1, 0, -1, 0, whose transform has the real parts 0, 2, 0, 2, and its spectrum is
  0, 1/2, 0, 1/2.
\<close>

theorem first_window_spectrum:
  assumes fresh: "Analyser fmt options = Some self"
    and pos: "0 < fftSize self"
    and keeps: "keeps_state decodeChannel"
    and total: "length (run_samples decodeChannel fft self chunks) = fftSize self"
    and run: "run decodeChannel fft self chunks = (self', evs)"
    and k: "k = smoothingTimeConstant self"
  shows "data self' = js_slice_neg (run_samples decodeChannel fft self chunks) (bufferSize self) \<and>
         fft_calls evs = [(js_slice_neg (data self') (fftSize self), replicate (fftSize self) 0)] \<and>
         (fft (js_slice_neg (data self') (fftSize self)) (replicate (fftSize self) 0) = None \<longrightarrow>
            fdata self' = replicate (fftSize self) (Some 0) \<and> Thrown \<in> set evs) \<and>
         (\<forall>re im.
            fft (js_slice_neg (data self') (fftSize self)) (replicate (fftSize self) 0) =
              Some (re, im) \<longrightarrow>
            (\<forall>i. i < fftSize self \<longrightarrow>
               js_get_cell (fdata self') (int i) =
                 js_f32 (js_plus (js_times (Some k) (Some 0))
                           (js_over_size (js_times (js_minus (Some 1) (Some k))
                                            (js_get re (int i)))
                              (fftSize self))))) \<and>
         Analyser defaultFormat scenario_options = Some scenario_analyser \<and>
         forwardTransform [1, 0, - 1, 0] [0, 0, 0, 0] = Some ([0, 2, 0, 2], [0, 0, 0, 0]) \<and>
         fdata (fst (capture decodeMonoFloat forwardTransform scenario_analyser [1, 0, - 1, 0])) =
           [Some 0, Some (1 / 2), Some 0, Some (1 / 2)]"
proof -
  define w where "w = js_slice_neg (data (fst (run decodeChannel fft self chunks))) (fftSize self)"
  have s': "self' = fst (run decodeChannel fft self chunks)"
    and e: "evs = snd (run decodeChannel fft self chunks)"
    using run by simp_all
  have zero: "fftCount self = 0" and spec0: "fdata self = replicate (fftSize self) (Some 0)"
    and empty: "data self = []"
    using Analyser_fields(12) [OF fresh] Analyser_fields(10) [OF fresh] Analyser_fields(9) [OF fresh]
    by simp_all
  have a: "fftCount self < fftSize self"
    using pos zero by simp
  have b: "fftCount self + length (run_samples decodeChannel fft self chunks) = fftSize self"
    using total zero by simp
  have inv: "js_slice_neg (data self) (bufferSize self) = data self"
    by (simp add: empty js_slice_neg_def)
  have dat: "data self' = js_slice_neg (run_samples decodeChannel fft self chunks) (bufferSize self)"
    using run_data [where f = fft and cs = chunks, OF keeps inv] by (simp add: s' empty)
  note first = run_first_window [where f = fft and cs = chunks, OF keeps a b inv w_def]
  have w': "js_slice_neg (data self') (fftSize self) = w"
    by (simp add: w_def s')
  have calls: "fft_calls evs = [(w, replicate (fftSize self) 0)]"
    using first by (simp add: e)
  have none: "fdata self' = replicate (fftSize self) (Some 0) \<and> Thrown \<in> set evs"
    if "fft w (replicate (fftSize self) 0) = None"
    using first that by (simp add: s' e spec0)
  have bins: "js_get_cell (fdata self') (int i) =
                 js_f32 (js_plus (js_times (Some k) (Some 0))
                           (js_over_size (js_times (js_minus (Some 1) (Some k))
                                            (js_get re (int i)))
                              (fftSize self)))"
    if tr: "fft w (replicate (fftSize self) 0) = Some (re, im)" and i: "i < fftSize self"
    for i re im
  proof -
    from first tr have "fdata self' = smoothLoop k (fftSize self) re 0 (fdata self)"
      by (simp add: s' k)
    then have "js_get_cell (fdata self') (int i) =
        js_smooth k (fftSize self) (js_get_cell (fdata self) (int i)) (js_get re (int i))"
      using i by (simp add: smoothLoop_cell)
    moreover have "js_get_cell (fdata self) (int i) = Some 0"
      using i by (simp add: spec0 js_get_cell_def js_get_def)
    ultimately show ?thesis
      by (simp add: js_smooth_def)
  qed
  have sc: "fdata (fst (capture decodeMonoFloat forwardTransform scenario_analyser [1, 0, - 1, 0])) =
           [Some 0, Some (1 / 2), Some 0, Some (1 / 2)]"
    by (simp add: scenario_capture)
  show ?thesis
    unfolding w'
    using dat calls none bins Analyser_scenario dft4 sc by simp
qed

text \<open>
  Claim C7 as stated fails in two ways. The analyser constructed with \<open>fftSize = 4\<close> and
  \<open>bufferSize = 2\<close> is freshly constructed and captures the four samples 1, 2, 3, 4 in one
  chunk: the transform is due, the transform library is handed the two samples of the
  buffer and four zeros and throws, and every bin of the spectrum is still \<open>0\<close>. And the
  analyser constructed with \<open>fftSize = 4\<close> and the default smoothing constant captures
  1, 0, -1, 0: the transform output for bin \<open>1\<close> is \<open>2\<close>, \<open>(1 - k) * 2 / 4\<close> is
  \<open>14411518807585587 / 2 ^ 55\<close> for the stored constant, and the bin holds the single
  precision number \<open>13421773 / 2 ^ 25\<close>.
\<close>

theorem first_window_spectrum_counterexample:
  "Analyser defaultFormat small_options = Some small_analyser \<and>
   length (run_samples decodeMonoFloat forwardTransform small_analyser [[1, 2, 3, 4]]) =
     fftSize small_analyser \<and>
   run decodeMonoFloat forwardTransform small_analyser [[1, 2, 3, 4]] =
     (small_analyser\<lparr>data := [3, 4], timeoutCount := Some 4, fftCount := 0\<rparr>,
      [Fft_call [3, 4] [0, 0, 0, 0], Thrown]) \<and>
   forwardTransform [3, 4] [0, 0, 0, 0] = None \<and>
   fdata (fst (run decodeMonoFloat forwardTransform small_analyser [[1, 2, 3, 4]])) =
     [Some 0, Some 0, Some 0, Some 0] \<and>
   Analyser defaultFormat plain_options = Some plain_analyser \<and>
   length (run_samples decodeMonoFloat forwardTransform plain_analyser [[1, 0, - 1, 0]]) =
     fftSize plain_analyser \<and>
   fft_calls (snd (run decodeMonoFloat forwardTransform plain_analyser [[1, 0, - 1, 0]])) =
     [([1, 0, - 1, 0], [0, 0, 0, 0])] \<and>
   forwardTransform [1, 0, - 1, 0] [0, 0, 0, 0] = Some ([0, 2, 0, 2], [0, 0, 0, 0]) \<and>
   (1 - smoothingTimeConstant plain_analyser) * 2 / real (fftSize plain_analyser) =
     14411518807585587 / 2 ^ 55 \<and>
   js_get_cell (fdata (fst (run decodeMonoFloat forwardTransform plain_analyser [[1, 0, - 1, 0]]))) 1 =
     Some (13421773 / 2 ^ 25) \<and>
   (14411518807585587 / 2 ^ 55 :: real) \<noteq> 13421773 / 2 ^ 25"
proof -
  have r1: "run decodeMonoFloat forwardTransform small_analyser [[1, 2, 3, 4]] =
     (small_analyser\<lparr>data := [3, 4], timeoutCount := Some 4, fftCount := 0\<rparr>,
      [Fft_call [3, 4] [0, 0, 0, 0], Thrown])"
    by (simp add: small_capture)
  have a: "length (run_samples decodeMonoFloat forwardTransform small_analyser [[1, 2, 3, 4]]) =
     fftSize small_analyser"
    and b: "fdata (small_analyser\<lparr>data := [3, 4], timeoutCount := Some 4, fftCount := 0\<rparr>) =
     [Some 0, Some 0, Some 0, Some 0]"
    by (simp_all add: samples_of_def decodeMonoFloat_def small_analyser_def)
  have r2: "run decodeMonoFloat forwardTransform plain_analyser [[1, 0, - 1, 0]] =
     (fst (capture_samples forwardTransform plain_analyser [1, 0, - 1, 0]),
      snd (capture_samples forwardTransform plain_analyser [1, 0, - 1, 0]))"
    by (simp add: plain_capture)
  have c: "length (run_samples decodeMonoFloat forwardTransform plain_analyser [[1, 0, - 1, 0]]) =
     fftSize plain_analyser"
    by (simp add: samples_of_def decodeMonoFloat_def plain_analyser_def)
  have d: "(1 - smoothingTimeConstant plain_analyser) * 2 / real (fftSize plain_analyser) =
     14411518807585587 / 2 ^ 55"
  proof -
    have "smoothingTimeConstant plain_analyser = 3602879701896397 / 2 ^ 54"
      and "fftSize plain_analyser = 4"
      by (simp_all only: plain_analyser_def analyser.simps dbl_fifth)
    then show ?thesis by simp
  qed
  have e: "(14411518807585587 / 2 ^ 55 :: real) \<noteq> 13421773 / 2 ^ 25"
    by simp
  show ?thesis
    by (simp only: Analyser_small Analyser_plain r1 r2 a b c d plain_samples
          dft_short dft4 fst_conv snd_conv simp_thms) (rule e)
qed

theorem first_window_spectrum_witness:
  "Analyser defaultFormat scenario_options = Some scenario_analyser \<and>
   0 < fftSize scenario_analyser \<and>
   keeps_state decodeMonoFloat \<and>
   length (run_samples decodeMonoFloat forwardTransform scenario_analyser [[1, 0], [- 1, 0]]) =
     fftSize scenario_analyser \<and>
   data (fst (run decodeMonoFloat forwardTransform scenario_analyser [[1, 0], [- 1, 0]])) =
     [1, 0, - 1, 0] \<and>
   fft_calls (snd (run decodeMonoFloat forwardTransform scenario_analyser [[1, 0], [- 1, 0]])) =
     [([1, 0, - 1, 0], [0, 0, 0, 0])] \<and>
   js_get_cell (fdata (fst (run decodeMonoFloat forwardTransform scenario_analyser [[1, 0], [- 1, 0]])))
     1 = Some (1 / 2)"
proof -
  let ?r = "run decodeMonoFloat forwardTransform scenario_analyser [[1, 0], [- 1, 0]]"
  have pos: "0 < fftSize scenario_analyser"
    by (simp add: scenario_analyser_def)
  have ch: "channel scenario_analyser = 0"
    by (simp add: scenario_analyser_def)
  have smp: "run_samples decodeMonoFloat forwardTransform scenario_analyser [[1, 0], [- 1, 0]] =
               [1, 0, - 1, 0]"
    by (simp add: samples_of_def decodeMonoFloat_def ch capture_config)
  have total: "length (run_samples decodeMonoFloat forwardTransform scenario_analyser
                  [[1, 0], [- 1, 0]]) = fftSize scenario_analyser"
    by (simp only: smp) (simp add: scenario_analyser_def)
  have run: "?r = (fst ?r, snd ?r)"
    by simp
  have k: "0 = smoothingTimeConstant scenario_analyser"
    by (simp add: scenario_analyser_def)
  note th = first_window_spectrum [OF Analyser_scenario pos keeps_state_decodeMonoFloat total run k]
  have d: "data (fst ?r) = [1, 0, - 1, 0]"
    using th [THEN conjunct1] by (simp only: smp) (simp add: scenario_analyser_def js_slice_neg_def)
  have i: "1 < fftSize scenario_analyser"
    by (simp add: scenario_analyser_def)
  have tr: "forwardTransform (js_slice_neg (data (fst ?r)) (fftSize scenario_analyser))
              (replicate (fftSize scenario_analyser) 0) = Some ([0, 2, 0, 2], [0, 0, 0, 0])"
    unfolding d by (simp add: scenario_analyser_def replicate_four dft4 js_slice_neg_def)
  note bin = th [THEN conjunct2, THEN conjunct2, THEN conjunct2, THEN conjunct1, rule_format, OF tr i]
  have calls: "fft_calls (snd ?r) = [([1, 0, - 1, 0], [0, 0, 0, 0])]"
    using th [THEN conjunct2, THEN conjunct1] unfolding d
    by (simp add: scenario_analyser_def replicate_four js_slice_neg_def)
  have "js_get_cell (fdata (fst ?r)) (int 1) = js_smooth 0 4 (Some 0) (Some 2)"
    using bin by (simp add: scenario_analyser_def js_get_def js_smooth_def)
  then have "js_get_cell (fdata (fst ?r)) 1 = Some (1 / 2)"
    by (simp add: smooth_scenario)
  with Analyser_scenario pos keeps_state_decodeMonoFloat total d calls show ?thesis
    by blast
qed

section \<open>The stream side\<close>

lemma forwarded_Capture [simp]: "forwarded (map Capture evs) = []"
  by (induction evs) simp_all

lemma emitted_Capture [simp]: "emitted (map Capture evs) = []"
  by (induction evs) simp_all

lemma forwarded_append [simp]: "forwarded (xs @ ys) = forwarded xs @ forwarded ys"
  by (induction xs rule: forwarded.induct) simp_all

lemma emitted_append [simp]: "emitted (xs @ ys) = emitted xs @ emitted ys"
  by (induction xs rule: emitted.induct) simp_all




end
